theory Spec2Isabelle
  imports Complex_Main "HOL-Library.Sublist"
begin

section \<open>Python strings and the regular expression of \<open>validate_phone\<close>\<close>

text \<open>
  A Python \<open>str\<close> is modelled as a \<open>string\<close>: a list of code points below 256.
  In that range \<open>\d\<close> matches the ten ASCII digits, and \<open>\s\<close> (as \<open>str.isspace\<close>)
  matches the code points 9-13, 28-32, 133 and 160.
\<close>

definition py_isdigit :: "char \<Rightarrow> bool" where
  "py_isdigit c = (48 \<le> (of_char c :: nat) \<and> (of_char c :: nat) \<le> 57)"

definition py_isspace :: "char \<Rightarrow> bool" where
  "py_isspace c = (let n = (of_char c :: nat) in
     (9 \<le> n \<and> n \<le> 13) \<or> (28 \<le> n \<and> n \<le> 32) \<or> n = 133 \<or> n = 160)"

text \<open>
  The fragment of \<open>re\<close> syntax that the pattern \<open>^\+?[\d\-\(\)\s]+$\<close> uses: a character
  class of escapes and literals, sequencing, \<open>?\<close>, \<open>+\<close> and \<open>$\<close>. The matcher is a
  backtracking one: \<open>run r s\<close> lists, in the order the engine tries them (greedy first),
  the rests of \<open>s\<close> left after \<open>r\<close> has matched a prefix of it.
\<close>

datatype atom = Digit | Space | Lit char

datatype regex = Cls "atom list" | Seq regex regex | Opt regex | Plus regex | Eol

fun atom_matches :: "atom \<Rightarrow> char \<Rightarrow> bool" where
  "atom_matches Digit c = py_isdigit c"
| "atom_matches Space c = py_isspace c"
| "atom_matches (Lit d) c = (c = d)"

text \<open>
  \<open>iter step n s\<close> repeats \<open>step\<close> one or more times, at most \<open>n\<close> times, longest
  repetition first. \<open>$\<close> holds at the end of the string and just before a newline that
  ends the string.
\<close>

fun iter :: "(string \<Rightarrow> string list) \<Rightarrow> nat \<Rightarrow> string \<Rightarrow> string list" where
  "iter step 0 s = []"
| "iter step (Suc n) s = concat (map (\<lambda>t. iter step n t @ [t]) (step s))"

fun run :: "regex \<Rightarrow> string \<Rightarrow> string list" where
  "run (Cls as) s = (case s of [] \<Rightarrow> [] | c # cs \<Rightarrow> if list_ex (\<lambda>a. atom_matches a c) as then [cs] else [])"
| "run (Seq r1 r2) s = concat (map (run r2) (run r1 s))"
| "run (Opt r) s = run r s @ [s]"
| "run (Plus r) s = iter (run r) (length s) s"
| "run Eol s = (if s = [] \<or> s = [CHR 0x0A] then [s] else [])"

text \<open>\<open>re.match(pattern, s)\<close> tries the pattern at position 0 only, where \<open>^\<close> holds.\<close>

definition re_match :: "regex \<Rightarrow> string \<Rightarrow> bool" where
  "re_match r s = (run r s \<noteq> [])"

definition phone_class :: regex where
  "phone_class = Cls [Digit, Lit (CHR ''-''), Lit (CHR ''(''), Lit (CHR '')''), Space]"

definition phone_pattern :: regex where
  "phone_pattern = Seq (Opt (Cls [Lit (CHR ''+'')])) (Seq (Plus phone_class) Eol)"

text \<open>
  \<open>validate_phone\<close> (\<open>debug_mutations.py\<close>, and the same function in \<open>crm/schema.py\<close>):
  \<^verbatim>\<open>
  if not phone: return True
  pattern = r'^\+?[\d\-\(\)\s]+$'
  return bool(re.match(pattern, phone))
  \<close>
  The argument is \<open>None\<close> or a string; both \<open>None\<close> and the empty string are falsy.
\<close>

definition validate_phone :: "string option \<Rightarrow> bool" where
  "validate_phone phone =
     (case phone of None \<Rightarrow> True
      | Some s \<Rightarrow> if s = [] then True else re_match phone_pattern s)"

text \<open>
  The format in the words of the specification: an optional leading \<open>+\<close> followed by
  one or more digits, hyphens, parentheses or whitespace characters.
\<close>

definition phone_char :: "char \<Rightarrow> bool" where
  "phone_char c = (py_isdigit c \<or> c = CHR ''-'' \<or> c = CHR ''('' \<or> c = CHR '')'' \<or> py_isspace c)"

definition phone_format :: "string \<Rightarrow> bool" where
  "phone_format s =
     (case s of [] \<Rightarrow> False
      | c # cs \<Rightarrow> if c = CHR ''+'' then cs \<noteq> [] \<and> list_all phone_char cs
                 else list_all phone_char s)"

section \<open>Python values\<close>

text \<open>
  \<open>str(n)\<close> for a non-negative integer, and \<open>int(s)\<close> for a string: surrounding
  whitespace is stripped, one sign is allowed, the digits may be grouped by single
  underscores, and more than 4300 digits are refused. \<open>int\<close> strips the code points
  9-13, 32, 133 and 160; unlike \<open>\s\<close> it does not strip 28-31. \<open>None\<close> stands for
  the \<open>ValueError\<close> that \<open>int\<close> raises.
\<close>

definition digit_char :: "nat \<Rightarrow> char" where
  "digit_char d = char_of (48 + d)"

definition digit_value :: "char \<Rightarrow> nat" where
  "digit_value c = of_char c - 48"

fun str_nat :: "nat \<Rightarrow> string" where
  "str_nat n = (if n < 10 then [digit_char n] else str_nat (n div 10) @ [digit_char (n mod 10)])"

declare str_nat.simps [simp del]

definition int_isspace :: "char \<Rightarrow> bool" where
  "int_isspace c = (let n = (of_char c :: nat) in (9 \<le> n \<and> n \<le> 13) \<or> n = 32 \<or> n = 133 \<or> n = 160)"

definition strip :: "string \<Rightarrow> string" where
  "strip s = rev (dropWhile int_isspace (rev (dropWhile int_isspace s)))"

definition int_max_str_digits :: nat where
  "int_max_str_digits = 4300"

fun digits_value :: "bool \<Rightarrow> nat \<Rightarrow> string \<Rightarrow> nat option" where
  "digits_value prev acc [] = (if prev then Some acc else None)"
| "digits_value prev acc (c # cs) =
     (if py_isdigit c then digits_value True (acc * 10 + digit_value c) cs
      else if c = CHR ''_'' \<and> prev then digits_value False acc cs
      else None)"

definition py_int :: "string \<Rightarrow> int option" where
  "py_int s =
     (case strip s of
        [] \<Rightarrow> None
      | c # cs \<Rightarrow>
          if int_max_str_digits < length (filter py_isdigit (c # cs)) then None
          else if c = CHR ''-'' then map_option (\<lambda>n. - int n) (digits_value False 0 cs)
          else if c = CHR ''+'' then map_option int (digits_value False 0 cs)
          else map_option int (digits_value False 0 (c # cs)))"

text \<open>
  A \<open>DecimalField(max_digits=10, decimal_places=2)\<close> is written through
  \<open>quantize\<close> to two places, with the context's rounding to the even neighbour and a
  precision of ten digits: a value whose rounded form needs more digits raises
  \<open>InvalidOperation\<close>.
\<close>

definition round_half_even :: "rat \<Rightarrow> int" where
  "round_half_even x =
     (let f = \<lfloor>x\<rfloor>; r = x - of_int f in
      if r < 1 / 2 then f else if 1 / 2 < r then f + 1 else if even f then f else f + 1)"

definition quantize2 :: "rat \<Rightarrow> rat" where
  "quantize2 x = of_int (round_half_even (x * 100)) / 100"

definition decimal_fits :: "rat \<Rightarrow> bool" where
  "decimal_fits x = (\<bar>round_half_even (x * 100)\<bar> < 10 ^ 10)"

text \<open>
  \<open>str\<close> of a \<open>Decimal\<close> with two decimal places, the form in which a
  \<open>DecimalField(decimal_places=2)\<close> is read from the store.
\<close>

definition decimal_str :: "rat \<Rightarrow> string" where
  "decimal_str r =
     (let cents = nat \<lfloor>\<bar>r\<bar> * 100\<rfloor> in
      (if r < 0 then ''-'' else []) @ str_nat (cents div 100) @ ''.'' @
      [digit_char (cents mod 100 div 10), digit_char (cents mod 10)])"

text \<open>\<open>sep.join(xs)\<close>.\<close>

fun join :: "string \<Rightarrow> string list \<Rightarrow> string" where
  "join sep [] = []"
| "join sep [x] = x"
| "join sep (x # y # ys) = x @ sep @ join sep (y # ys)"

text \<open>Exceptions that leave a resolver or are caught by one.\<close>

datatype exn = IntegrityError | ValueError | OverflowError | InvalidOperation | FieldError

text \<open>\<open>str(e)\<close>: the texts are those of Django on its default SQLite backend.\<close>

fun exn_str :: "exn \<Rightarrow> string" where
  "exn_str IntegrityError = ''UNIQUE constraint failed: crm_customer.email''"
| "exn_str ValueError = ''Field id expected a number''"
| "exn_str OverflowError = ''Python int too large to convert to SQLite INTEGER''"
| "exn_str InvalidOperation = ''[<class '' @ [CHR 0x27] @ ''decimal.InvalidOperation'' @ [CHR 0x27] @ ''>]''"
| "exn_str FieldError = ''Cannot resolve keyword into field''"

section \<open>Data model (\<open>crm/models.py\<close>)\<close>

text \<open>
  The three models. A \<open>DecimalField\<close> holds a Python \<open>Decimal\<close>, whose arithmetic on
  values of at most ten digits is exact: prices and totals are rationals. Instants and
  dates are integers on one time line. \<open>updated_at\<close>, and \<open>created_at\<close> of products and
  orders, are read by no operation below and are left out. \<open>phone\<close> is nullable.
\<close>

record Customer =
  c_id :: nat
  c_name :: string
  c_email :: string
  c_phone :: "string option"
  c_created_at :: int

record Product =
  p_id :: nat
  p_name :: string
  p_price :: rat
  p_stock :: int

text \<open>
  \<open>o_customer\<close> is the foreign key, \<open>o_products\<close> the ids in the many-to-many table.
\<close>

record Order =
  o_id :: nat
  o_customer :: nat
  o_products :: "nat list"
  o_total_amount :: rat
  o_order_date :: int

text \<open>
  The storage engine: one table per model. It assigns the next free primary key on
  insertion and enforces \<open>unique=True\<close> on \<open>Customer.email\<close>; decimal columns are
  written with two places and at most ten digits.
\<close>

record db =
  customer_table :: "Customer list"
  product_table :: "Product list"
  order_table :: "Order list"

definition fresh_id :: "nat list \<Rightarrow> nat" where
  "fresh_id ids = Suc (foldr max ids 0)"

definition Customer_objects_create ::
  "db \<Rightarrow> int \<Rightarrow> string \<Rightarrow> string \<Rightarrow> string \<Rightarrow> exn + (Customer \<times> db)" where
  "Customer_objects_create d now name email phone =
     (if email \<in> set (map c_email (customer_table d)) then Inl IntegrityError
      else let customer = \<lparr>c_id = fresh_id (map c_id (customer_table d)), c_name = name,
                              c_email = email, c_phone = Some phone, c_created_at = now\<rparr>
           in Inr (customer, d\<lparr>customer_table := customer_table d @ [customer]\<rparr>))"

text \<open>
  \<open>Product.objects.create\<close> returns the object it was given, with its key; the row
  holds the price as the column stores it.
\<close>

definition Product_objects_create :: "db \<Rightarrow> string \<Rightarrow> rat \<Rightarrow> int \<Rightarrow> exn + (Product \<times> db)" where
  "Product_objects_create d name price stock =
     (if \<not> decimal_fits price then Inl InvalidOperation
      else let product = \<lparr>p_id = fresh_id (map p_id (product_table d)), p_name = name,
                             p_price = price, p_stock = stock\<rparr>
           in Inr (product,
                   d\<lparr>product_table := product_table d @ [product\<lparr>p_price := quantize2 price\<rparr>]\<rparr>))"

text \<open>\<open>Order.objects.create(customer=..., order_date=...)\<close>: \<open>total_amount\<close> takes its default.\<close>

definition Order_objects_create :: "db \<Rightarrow> Customer \<Rightarrow> int \<Rightarrow> Order \<times> db" where
  "Order_objects_create d customer date =
     (let order = \<lparr>o_id = fresh_id (map o_id (order_table d)), o_customer = c_id customer,
                     o_products = [], o_total_amount = 0, o_order_date = date\<rparr>
      in (order, d\<lparr>order_table := order_table d @ [order]\<rparr>))"

text \<open>\<open>order.products.set(products)\<close> rewrites the many-to-many rows of the order.\<close>

definition products_set :: "db \<Rightarrow> Order \<Rightarrow> Product list \<Rightarrow> db" where
  "products_set d order ps =
     d\<lparr>order_table := map (\<lambda>row. if o_id row = o_id order then row\<lparr>o_products := map p_id ps\<rparr> else row)
                            (order_table d)\<rparr>"

text \<open>\<open>order.products.all()\<close> reads the rows back from the store.\<close>

definition products_all :: "db \<Rightarrow> Order \<Rightarrow> Product list" where
  "products_all d order =
     (case find (\<lambda>row. o_id row = o_id order) (order_table d) of
        None \<Rightarrow> []
      | Some row \<Rightarrow> filter (\<lambda>p. p_id p \<in> set (o_products row)) (product_table d))"

text \<open>
  \<open>Order.calculate_total_amount\<close>:
  \<^verbatim>\<open>
  total = sum(product.price for product in self.products.all())
  self.total_amount = total
  return total
  \<close>
  The method updates the object in memory; the updated object is returned with the total.
\<close>

definition calculate_total_amount :: "db \<Rightarrow> Order \<Rightarrow> rat \<times> Order" where
  "calculate_total_amount d order =
     (let total = sum_list (map p_price (products_all d order))
      in (total, order\<lparr>o_total_amount := total\<rparr>))"

text \<open>
  \<open>order.save()\<close> writes the columns of the object; the many-to-many rows stay. The
  total is a sum of stored prices, which have two decimal places, so that writing it
  does not round it; a total that needs more than ten digits raises.
\<close>

definition order_save :: "db \<Rightarrow> Order \<Rightarrow> exn + db" where
  "order_save d order =
     (if \<not> decimal_fits (o_total_amount order) then Inl InvalidOperation
      else Inr (d\<lparr>order_table :=
                    map (\<lambda>row. if o_id row = o_id order then order\<lparr>o_products := o_products row\<rparr> else row)
                      (order_table d)\<rparr>))"

section \<open>Mutations (\<open>crm/schema.py\<close>)\<close>

text \<open>
  Input objects, field errors and payloads. A payload field that the resolver does not
  set is \<open>None\<close>. \<open>graphene.ID\<close> values reach the resolver as strings.
\<close>

record CustomerInput =
  ci_name :: string
  ci_email :: string
  ci_phone :: "string option"

record ProductInput =
  pi_name :: string
  pi_price :: rat
  pi_stock :: "int option"

record OrderInput =
  oi_customer_id :: string
  oi_product_ids :: "string list"
  oi_order_date :: "int option"

record ErrorType =
  field :: string
  message :: string

record CustomerValidationError =
  index :: nat
  row_errors :: "ErrorType list"

record 'a payload =
  entity :: "'a option"
  info :: string
  errors :: "ErrorType list option"

record BulkCreateCustomersOutput =
  bulk_customers :: "Customer list"
  bulk_errors :: "CustomerValidationError list"

text \<open>
  \<open>validate_email_unique\<close>:
  \<^verbatim>\<open>
  queryset = Customer.objects.filter(email=email)
  if exclude_id: queryset = queryset.exclude(id=exclude_id)
  return not queryset.exists()
  \<close>
\<close>

definition validate_email_unique :: "db \<Rightarrow> string \<Rightarrow> nat option \<Rightarrow> bool" where
  "validate_email_unique d email exclude_id =
     (let queryset = filter (\<lambda>c. c_email c = email) (customer_table d);
          queryset = (case exclude_id of
                        None \<Rightarrow> queryset
                      | Some i \<Rightarrow> if i \<noteq> 0 then filter (\<lambda>c. c_id c \<noteq> i) queryset else queryset)
      in queryset = [])"

text \<open>Truth value of an optional string, and \<open>phone or ""\<close>.\<close>

definition truthy :: "string option \<Rightarrow> bool" where
  "truthy v = (case v of None \<Rightarrow> False | Some s \<Rightarrow> s \<noteq> [])"

definition or_empty :: "string option \<Rightarrow> string" where
  "or_empty v = (case v of None \<Rightarrow> [] | Some s \<Rightarrow> s)"

definition phone_message :: string where
  "phone_message = ''Phone number must be in format: +1234567890 or 123-456-7890''"

text \<open>The two validations that \<open>CreateCustomer\<close> and each row of \<open>BulkCreateCustomers\<close> run.\<close>

definition customer_errors :: "db \<Rightarrow> CustomerInput \<Rightarrow> ErrorType list" where
  "customer_errors d input =
     (if \<not> validate_email_unique d (ci_email input) None
      then [\<lparr>field = ''email'', message = ''Email already exists''\<rparr>] else []) @
     (if truthy (ci_phone input) \<and> \<not> validate_phone (ci_phone input)
      then [\<lparr>field = ''phone'', message = phone_message\<rparr>] else [])"

definition CreateCustomer_mutate :: "db \<Rightarrow> int \<Rightarrow> CustomerInput \<Rightarrow> Customer payload \<times> db" where
  "CreateCustomer_mutate d now input =
     (let errs = customer_errors d input in
      if errs \<noteq> [] then (\<lparr>entity = None, info = ''Validation failed'', errors = Some errs\<rparr>, d)
      else case Customer_objects_create d now (ci_name input) (ci_email input) (or_empty (ci_phone input)) of
             Inr (customer, d') \<Rightarrow>
               (\<lparr>entity = Some customer,
                 info = ''Customer '' @ [CHR 0x27] @ c_name customer @ [CHR 0x27] @ '' created successfully'',
                 errors = None\<rparr>, d')
           | Inl e \<Rightarrow>
               (\<lparr>entity = None, info = ''Failed to create customer'',
                 errors = Some [\<lparr>field = ''general'', message = exn_str e\<rparr>]\<rparr>, d))"

text \<open>
  \<open>BulkCreateCustomers.mutate\<close>: the loop over \<open>enumerate(input)\<close>, with the lists
  \<open>customers\<close> and \<open>errors\<close> as accumulators. The loop runs in one \<open>transaction.atomic()\<close>
  block, which no exception leaves: the block commits what the loop wrote.
\<close>

fun bulk_loop :: "int \<Rightarrow> db \<Rightarrow> nat \<Rightarrow> CustomerInput list \<Rightarrow> Customer list \<Rightarrow>
    CustomerValidationError list \<Rightarrow> db \<times> Customer list \<times> CustomerValidationError list" where
  "bulk_loop now d i [] customers errs = (d, customers, errs)"
| "bulk_loop now d i (customer_data # rest) customers errs =
     (let row_errs = customer_errors d customer_data in
      if row_errs \<noteq> [] then
        bulk_loop now d (Suc i) rest customers (errs @ [\<lparr>index = i, row_errors = row_errs\<rparr>])
      else case Customer_objects_create d now (ci_name customer_data) (ci_email customer_data)
                  (or_empty (ci_phone customer_data)) of
             Inr (customer, d') \<Rightarrow> bulk_loop now d' (Suc i) rest (customers @ [customer]) errs
           | Inl IntegrityError \<Rightarrow>
               bulk_loop now d (Suc i) rest customers
                 (errs @ [\<lparr>index = i, row_errors = [\<lparr>field = ''email'', message = ''Email already exists''\<rparr>]\<rparr>])
           | Inl e \<Rightarrow>
               bulk_loop now d (Suc i) rest customers
                 (errs @ [\<lparr>index = i, row_errors = [\<lparr>field = ''general'', message = exn_str e\<rparr>]\<rparr>]))"

definition BulkCreateCustomers_mutate ::
  "db \<Rightarrow> int \<Rightarrow> CustomerInput list \<Rightarrow> BulkCreateCustomersOutput \<times> db" where
  "BulkCreateCustomers_mutate d now input =
     (case bulk_loop now d 0 input [] [] of
        (d', customers, errs) \<Rightarrow> (\<lparr>bulk_customers = customers, bulk_errors = errs\<rparr>, d'))"

text \<open>
  \<open>CreateProduct.mutate\<close>. \<open>input.stock or 0\<close> is 0 for an absent stock. An
  exception of \<open>objects.create\<close> is caught and reported on the field \<open>general\<close>.
\<close>

definition product_errors :: "ProductInput \<Rightarrow> ErrorType list" where
  "product_errors input =
     (if pi_price input \<le> 0 then [\<lparr>field = ''price'', message = ''Price must be positive''\<rparr>] else []) @
     (if pi_stock input \<noteq> None \<and> the (pi_stock input) < 0
      then [\<lparr>field = ''stock'', message = ''Stock cannot be negative''\<rparr>] else [])"

definition CreateProduct_mutate :: "db \<Rightarrow> ProductInput \<Rightarrow> Product payload \<times> db" where
  "CreateProduct_mutate d input =
     (let errs = product_errors input in
      if errs \<noteq> [] then (\<lparr>entity = None, info = ''Validation failed'', errors = Some errs\<rparr>, d)
      else case Product_objects_create d (pi_name input) (pi_price input)
                  (case pi_stock input of None \<Rightarrow> 0 | Some s \<Rightarrow> s) of
             Inr (product, d') \<Rightarrow>
               (\<lparr>entity = Some product,
                 info = ''Product '' @ [CHR 0x27] @ p_name product @ [CHR 0x27] @ '' created successfully'',
                 errors = None\<rparr>, d')
           | Inl e \<Rightarrow>
               (\<lparr>entity = None, info = ''Failed to create product'',
                 errors = Some [\<lparr>field = ''general'', message = exn_str e\<rparr>]\<rparr>, d))"

text \<open>
  \<open>CreateOrder.mutate\<close>. The ORM converts an id with \<open>int\<close> before it looks it up, in
  \<open>get(id=...)\<close> and in \<open>filter(id__in=...)\<close>; the \<open>ValueError\<close> of a string that is no
  integer is caught nowhere and leaves the resolver, and so does the \<open>OverflowError\<close>
  of a key outside the 64-bit range of the column when the query runs. \<open>invalid_ids\<close>
  is a Python set, joined in an order the language does not fix; the model lists it in
  input order. The writes run in \<open>transaction.atomic()\<close>: an exception among them
  leaves the store as it was and is reported on the field \<open>general\<close>.
\<close>

definition in_key_range :: "int \<Rightarrow> bool" where
  "in_key_range k = (- (2 ^ 63) \<le> k \<and> k < 2 ^ 63)"

definition order_created_message :: "rat \<Rightarrow> string" where
  "order_created_message amount = ''Order created successfully with total amount $'' @ decimal_str amount"

definition invalid_ids_message :: "string list \<Rightarrow> string" where
  "invalid_ids_message ids = ''Invalid product IDs: '' @ join '', '' ids"

definition invalid_ids :: "string list \<Rightarrow> Product list \<Rightarrow> string list" where
  "invalid_ids product_ids products =
     filter (\<lambda>s. s \<notin> set (map (\<lambda>p. str_nat (p_id p)) products)) (remdups product_ids)"

definition those_ints :: "string list \<Rightarrow> int list option" where
  "those_ints ids = (if list_all (\<lambda>s. py_int s \<noteq> None) ids then Some (map (\<lambda>s. the (py_int s)) ids) else None)"

definition CreateOrder_mutate :: "db \<Rightarrow> int \<Rightarrow> OrderInput \<Rightarrow> exn + (Order payload \<times> db)" where
  "CreateOrder_mutate d now input =
     (case py_int (oi_customer_id input) of
        None \<Rightarrow> Inl ValueError
      | Some cid \<Rightarrow>
          if \<not> in_key_range cid then Inl OverflowError
          else
          (case find (\<lambda>c. int (c_id c) = cid) (customer_table d) of
             None \<Rightarrow>
               Inr (\<lparr>entity = None, info = ''Validation failed'',
                     errors = Some [\<lparr>field = ''customer_id'', message = ''Invalid customer ID''\<rparr>]\<rparr>, d)
           | Some customer \<Rightarrow>
               (let errs1 = (if oi_product_ids input = []
                             then [\<lparr>field = ''product_ids'', message = ''At least one product must be selected''\<rparr>]
                             else []);
                    product_ids = oi_product_ids input
                in case those_ints product_ids of
                     None \<Rightarrow> Inl ValueError
                   | Some keys \<Rightarrow>
                       if \<not> list_all in_key_range keys then Inl OverflowError
                       else
                       (let products = filter (\<lambda>p. int (p_id p) \<in> set keys) (product_table d);
                            errs2 = (if length products \<noteq> length product_ids
                                     then [\<lparr>field = ''product_ids'',
                                            message = invalid_ids_message (invalid_ids product_ids products)\<rparr>]
                                     else []);
                            errs = errs1 @ errs2
                        in if errs \<noteq> [] then
                             Inr (\<lparr>entity = None, info = ''Validation failed'', errors = Some errs\<rparr>, d)
                           else
                             (case Order_objects_create d customer
                                     (case oi_order_date input of None \<Rightarrow> now | Some t \<Rightarrow> t) of
                                (order, d1) \<Rightarrow>
                                  (let d2 = products_set d1 order products;
                                       order' = snd (calculate_total_amount d2 order)
                                   in case order_save d2 order' of
                                        Inr d3 \<Rightarrow>
                                          Inr (\<lparr>entity = Some order',
                                                info = order_created_message (o_total_amount order'),
                                                errors = None\<rparr>, d3)
                                      | Inl e \<Rightarrow>
                                          Inr (\<lparr>entity = None, info = ''Failed to create order'',
                                                errors = Some [\<lparr>field = ''general'', message = exn_str e\<rparr>]\<rparr>,
                                               d)))))))"

section \<open>Queries (\<open>crm/schema.py\<close>, \<open>crm/filters.py\<close>)\<close>

text \<open>
  A queryset is lazy: \<open>filter\<close> narrows the rows, and the names given to
  \<open>order_by\<close> and \<open>select_related\<close> are recorded for the framework, which evaluates
  the queryset. Without \<open>order_by\<close> the ordering of the \<open>Meta\<close> class applies. The
  rows are listed in table order; the properties below are about which rows are selected.
\<close>

record 'a queryset =
  qs_rows :: "'a list"
  qs_order_by :: "string option"
  qs_select_related :: "string list"

definition objects_all :: "'a list \<Rightarrow> 'a queryset" where
  "objects_all table = \<lparr>qs_rows = table, qs_order_by = None, qs_select_related = []\<rparr>"

definition qs_filter :: "('a \<Rightarrow> bool) \<Rightarrow> 'a queryset \<Rightarrow> 'a queryset" where
  "qs_filter P qs = qs\<lparr>qs_rows := filter P (qs_rows qs)\<rparr>"

text \<open>
  \<open>queryset.order_by(name)\<close> raises \<open>FieldError\<close> for a name that is no ordering of
  the model. Which names are orderings (fields, \<open>pk\<close>, paths through relations, each
  with an optional \<open>-\<close>) is the ORM's matter: the resolvers take that check as the
  parameter \<open>ordering_ok\<close>.
\<close>

definition order_by_opt ::
  "(string \<Rightarrow> bool) \<Rightarrow> string option \<Rightarrow> 'a queryset \<Rightarrow> exn + 'a queryset" where
  "order_by_opt ordering_ok order_by qs =
     (if truthy order_by
      then (if ordering_ok (the order_by) then Inr (qs\<lparr>qs_order_by := order_by\<rparr>) else Inl FieldError)
      else Inr qs)"

text \<open>
  Evaluation checks the names given to \<open>select_related\<close> against the foreign keys of
  the model and raises \<open>FieldError\<close> for any other name.
\<close>

definition evaluate :: "string list \<Rightarrow> 'a queryset \<Rightarrow> exn + 'a list" where
  "evaluate foreign_keys qs =
     (if list_all (\<lambda>n. n \<in> set foreign_keys) (qs_select_related qs) then Inr (qs_rows qs)
      else Inl FieldError)"

text \<open>
  The lookups: \<open>icontains\<close> folds the case of ASCII letters, as SQLite's \<open>LIKE\<close> does;
  \<open>startswith\<close> on a nullable column selects no row whose value is null.
\<close>

definition lower :: "char \<Rightarrow> char" where
  "lower c = (let n = (of_char c :: nat) in if 65 \<le> n \<and> n \<le> 90 then char_of (n + 32) else c)"

definition icontains :: "string \<Rightarrow> string \<Rightarrow> bool" where
  "icontains value text = sublist (map lower value) (map lower text)"

definition startswith :: "string \<Rightarrow> string option \<Rightarrow> bool" where
  "startswith value text = (case text of None \<Rightarrow> False | Some t \<Rightarrow> prefix value t)"

text \<open>
  Truth values: a number is falsy when it is zero, a Boolean when it is \<open>False\<close>, a
  string when it is empty (\<open>truthy\<close> above), a date never; \<open>filter.get(key)\<close> of an
  absent key is \<open>None\<close>, which is falsy.
\<close>

definition truthy_num :: "'a::zero option \<Rightarrow> bool" where
  "truthy_num v = (case v of None \<Rightarrow> False | Some n \<Rightarrow> n \<noteq> 0)"

definition truthy_bool :: "bool option \<Rightarrow> bool" where
  "truthy_bool v = (case v of None \<Rightarrow> False | Some b \<Rightarrow> b)"

definition truthy_date :: "int option \<Rightarrow> bool" where
  "truthy_date v = (v \<noteq> None)"

text \<open>One step of a resolver: \<open>if filter.get(key): queryset = queryset.filter(...)\<close>.\<close>

definition when_set :: "bool \<Rightarrow> ('a \<Rightarrow> bool) \<Rightarrow> 'a queryset \<Rightarrow> 'a queryset" where
  "when_set present P qs = (if present then qs_filter P qs else qs)"

text \<open>The filter input types. \<open>Float\<close> criteria are compared with decimal columns as numbers.\<close>

record CustomerFilterInput =
  cf_name_icontains :: "string option"
  cf_email_icontains :: "string option"
  cf_created_at_gte :: "int option"
  cf_created_at_lte :: "int option"
  cf_phone_pattern :: "string option"

record ProductFilterInput =
  pf_name_icontains :: "string option"
  pf_price_gte :: "rat option"
  pf_price_lte :: "rat option"
  pf_stock_gte :: "int option"
  pf_stock_lte :: "int option"
  pf_low_stock :: "bool option"

record OrderFilterInput =
  of_total_amount_gte :: "rat option"
  of_total_amount_lte :: "rat option"
  of_order_date_gte :: "int option"
  of_order_date_lte :: "int option"
  of_customer_name :: "string option"
  of_product_name :: "string option"
  of_product_id :: "int option"

text \<open>
  \<open>Query.resolve_customers\<close> and \<open>Query.resolve_filtered_customers\<close> have the same
  body. \<open>if filter:\<close> skips an absent filter object.
\<close>

definition resolve_customers ::
  "(string \<Rightarrow> bool) \<Rightarrow> db \<Rightarrow> CustomerFilterInput option \<Rightarrow> string option \<Rightarrow> exn + Customer queryset" where
  "resolve_customers ordering_ok d filter_arg order_by =
     (let queryset = objects_all (customer_table d);
          queryset = (case filter_arg of
             None \<Rightarrow> queryset
           | Some f \<Rightarrow>
               (let queryset = when_set (truthy (cf_name_icontains f))
                      (\<lambda>c. icontains (the (cf_name_icontains f)) (c_name c)) queryset;
                    queryset = when_set (truthy (cf_email_icontains f))
                      (\<lambda>c. icontains (the (cf_email_icontains f)) (c_email c)) queryset;
                    queryset = when_set (truthy_date (cf_created_at_gte f))
                      (\<lambda>c. the (cf_created_at_gte f) \<le> c_created_at c) queryset;
                    queryset = when_set (truthy_date (cf_created_at_lte f))
                      (\<lambda>c. c_created_at c \<le> the (cf_created_at_lte f)) queryset;
                    queryset = when_set (truthy (cf_phone_pattern f))
                      (\<lambda>c. startswith (the (cf_phone_pattern f)) (c_phone c)) queryset
                in queryset))
      in order_by_opt ordering_ok order_by queryset)"

definition resolve_filtered_customers ::
  "(string \<Rightarrow> bool) \<Rightarrow> db \<Rightarrow> CustomerFilterInput option \<Rightarrow> string option \<Rightarrow> exn + Customer queryset" where
  "resolve_filtered_customers ordering_ok d filter_arg order_by =
     (let queryset = objects_all (customer_table d);
          queryset = (case filter_arg of
             None \<Rightarrow> queryset
           | Some f \<Rightarrow>
               (let queryset = when_set (truthy (cf_name_icontains f))
                      (\<lambda>c. icontains (the (cf_name_icontains f)) (c_name c)) queryset;
                    queryset = when_set (truthy (cf_email_icontains f))
                      (\<lambda>c. icontains (the (cf_email_icontains f)) (c_email c)) queryset;
                    queryset = when_set (truthy_date (cf_created_at_gte f))
                      (\<lambda>c. the (cf_created_at_gte f) \<le> c_created_at c) queryset;
                    queryset = when_set (truthy_date (cf_created_at_lte f))
                      (\<lambda>c. c_created_at c \<le> the (cf_created_at_lte f)) queryset;
                    queryset = when_set (truthy (cf_phone_pattern f))
                      (\<lambda>c. startswith (the (cf_phone_pattern f)) (c_phone c)) queryset
                in queryset))
      in order_by_opt ordering_ok order_by queryset)"

text \<open>\<open>Query.resolve_products\<close> and \<open>Query.resolve_filtered_products\<close>, again one body.\<close>

definition resolve_products ::
  "(string \<Rightarrow> bool) \<Rightarrow> db \<Rightarrow> ProductFilterInput option \<Rightarrow> string option \<Rightarrow> exn + Product queryset" where
  "resolve_products ordering_ok d filter_arg order_by =
     (let queryset = objects_all (product_table d);
          queryset = (case filter_arg of
             None \<Rightarrow> queryset
           | Some f \<Rightarrow>
               (let queryset = when_set (truthy (pf_name_icontains f))
                      (\<lambda>p. icontains (the (pf_name_icontains f)) (p_name p)) queryset;
                    queryset = when_set (truthy_num (pf_price_gte f))
                      (\<lambda>p. the (pf_price_gte f) \<le> p_price p) queryset;
                    queryset = when_set (truthy_num (pf_price_lte f))
                      (\<lambda>p. p_price p \<le> the (pf_price_lte f)) queryset;
                    queryset = when_set (truthy_num (pf_stock_gte f))
                      (\<lambda>p. the (pf_stock_gte f) \<le> p_stock p) queryset;
                    queryset = when_set (truthy_num (pf_stock_lte f))
                      (\<lambda>p. p_stock p \<le> the (pf_stock_lte f)) queryset;
                    queryset = when_set (truthy_bool (pf_low_stock f))
                      (\<lambda>p. p_stock p < 10) queryset
                in queryset))
      in order_by_opt ordering_ok order_by queryset)"

definition resolve_filtered_products ::
  "(string \<Rightarrow> bool) \<Rightarrow> db \<Rightarrow> ProductFilterInput option \<Rightarrow> string option \<Rightarrow> exn + Product queryset" where
  "resolve_filtered_products ordering_ok d filter_arg order_by =
     (let queryset = objects_all (product_table d);
          queryset = (case filter_arg of
             None \<Rightarrow> queryset
           | Some f \<Rightarrow>
               (let queryset = when_set (truthy (pf_name_icontains f))
                      (\<lambda>p. icontains (the (pf_name_icontains f)) (p_name p)) queryset;
                    queryset = when_set (truthy_num (pf_price_gte f))
                      (\<lambda>p. the (pf_price_gte f) \<le> p_price p) queryset;
                    queryset = when_set (truthy_num (pf_price_lte f))
                      (\<lambda>p. p_price p \<le> the (pf_price_lte f)) queryset;
                    queryset = when_set (truthy_num (pf_stock_gte f))
                      (\<lambda>p. the (pf_stock_gte f) \<le> p_stock p) queryset;
                    queryset = when_set (truthy_num (pf_stock_lte f))
                      (\<lambda>p. p_stock p \<le> the (pf_stock_lte f)) queryset;
                    queryset = when_set (truthy_bool (pf_low_stock f))
                      (\<lambda>p. p_stock p < 10) queryset
                in queryset))
      in order_by_opt ordering_ok order_by queryset)"

text \<open>
  The order resolvers. \<open>Order\<close> has the foreign key \<open>customer\<close> and the many-to-many
  field \<open>products\<close>; it has no field \<open>product\<close>. \<open>resolve_orders\<close> names \<open>product\<close>
  in \<open>select_related\<close>, which evaluation rejects, and in two lookups, where \<open>filter\<close>
  raises \<open>FieldError\<close> at once. \<open>resolve_filtered_orders\<close> has these two lookups
  commented out.
\<close>

definition order_foreign_keys :: "string list" where
  "order_foreign_keys = [''customer'']"

definition customer_name_of :: "db \<Rightarrow> Order \<Rightarrow> string option" where
  "customer_name_of d row = map_option c_name (find (\<lambda>c. c_id c = o_customer row) (customer_table d))"

definition order_amount_date_customer ::
  "db \<Rightarrow> OrderFilterInput \<Rightarrow> Order queryset \<Rightarrow> Order queryset" where
  "order_amount_date_customer d f queryset =
     (let queryset = when_set (truthy_num (of_total_amount_gte f))
            (\<lambda>row. the (of_total_amount_gte f) \<le> o_total_amount row) queryset;
          queryset = when_set (truthy_num (of_total_amount_lte f))
            (\<lambda>row. o_total_amount row \<le> the (of_total_amount_lte f)) queryset;
          queryset = when_set (truthy_date (of_order_date_gte f))
            (\<lambda>row. the (of_order_date_gte f) \<le> o_order_date row) queryset;
          queryset = when_set (truthy_date (of_order_date_lte f))
            (\<lambda>row. o_order_date row \<le> the (of_order_date_lte f)) queryset;
          queryset = when_set (truthy (of_customer_name f))
            (\<lambda>row. case customer_name_of d row of None \<Rightarrow> False
                    | Some n \<Rightarrow> icontains (the (of_customer_name f)) n) queryset
      in queryset)"

definition resolve_orders ::
  "(string \<Rightarrow> bool) \<Rightarrow> db \<Rightarrow> OrderFilterInput option \<Rightarrow> string option \<Rightarrow> exn + Order queryset" where
  "resolve_orders ordering_ok d filter_arg order_by =
     (let queryset = (objects_all (order_table d))\<lparr>qs_select_related := [''customer'', ''product'']\<rparr>
      in case filter_arg of
           None \<Rightarrow> order_by_opt ordering_ok order_by queryset
         | Some f \<Rightarrow>
             (let queryset = order_amount_date_customer d f queryset
              in if truthy (of_product_name f) then Inl FieldError
                 else if truthy_num (of_product_id f) then Inl FieldError
                 else order_by_opt ordering_ok order_by queryset))"

definition resolve_filtered_orders ::
  "(string \<Rightarrow> bool) \<Rightarrow> db \<Rightarrow> OrderFilterInput option \<Rightarrow> string option \<Rightarrow> exn + Order queryset" where
  "resolve_filtered_orders ordering_ok d filter_arg order_by =
     (let queryset = (objects_all (order_table d))\<lparr>qs_select_related := [''customer'']\<rparr>;
          queryset = (case filter_arg of
             None \<Rightarrow> queryset
           | Some f \<Rightarrow> order_amount_date_customer d f queryset)
      in order_by_opt ordering_ok order_by queryset)"

text \<open>
  \<open>ProductFilter.filter_low_stock\<close> (\<open>crm/filters.py\<close>), the method behind the
  \<open>low_stock\<close> parameter of the filter set:
  \<^verbatim>\<open>
  if value: return queryset.filter(stock__lt=10)
  return queryset
  \<close>
\<close>

definition filter_low_stock :: "Product queryset \<Rightarrow> string \<Rightarrow> bool \<Rightarrow> Product queryset" where
  "filter_low_stock queryset name val = (if val then qs_filter (\<lambda>p. p_stock p < 10) queryset else queryset)"

section \<open>Example data (\<open>seed_db.py\<close>)\<close>

definition seed_customers :: "Customer list" where
  "seed_customers =
     [\<lparr>c_id = 1, c_name = ''Alice Johnson'', c_email = ''alice@example.com'',
        c_phone = Some ''+1234567890'', c_created_at = 0\<rparr>,
      \<lparr>c_id = 2, c_name = ''Bob Smith'', c_email = ''bob@example.com'',
        c_phone = Some ''123-456-7890'', c_created_at = 0\<rparr>]"

definition seed_products :: "Product list" where
  "seed_products =
     [\<lparr>p_id = 1, p_name = ''Laptop'', p_price = 99999 / 100, p_stock = 10\<rparr>,
      \<lparr>p_id = 2, p_name = ''Mouse'', p_price = 2550 / 100, p_stock = 50\<rparr>,
      \<lparr>p_id = 3, p_name = ''Desk Chair'', p_price = 19999 / 100, p_stock = 8\<rparr>]"

definition seed_db :: db where
  "seed_db = \<lparr>customer_table = seed_customers, product_table = seed_products, order_table = []\<rparr>"

definition carol :: CustomerInput where
  "carol = \<lparr>ci_name = ''Carol Davis'', ci_email = ''carol@example.com'', ci_phone = Some ''''\<rparr>"

definition bob_again :: CustomerInput where
  "bob_again = \<lparr>ci_name = ''Robert'', ci_email = ''bob@example.com'', ci_phone = None\<rparr>"

definition david :: CustomerInput where
  "david = \<lparr>ci_name = ''David Wilson'', ci_email = ''david@example.com'', ci_phone = Some ''+1987654321''\<rparr>"

text \<open>An ordering check that accepts every name, for queries without \<open>order_by\<close>.\<close>

definition any_ordering :: "string \<Rightarrow> bool" where
  "any_ordering name = True"

definition no_criteria :: ProductFilterInput where
  "no_criteria = \<lparr>pf_name_icontains = None, pf_price_gte = None, pf_price_lte = None,
                   pf_stock_gte = None, pf_stock_lte = None, pf_low_stock = None\<rparr>"

section \<open>Phone validation\<close>

lemma run_cls: "run phone_class s = (case s of [] \<Rightarrow> [] | c # cs \<Rightarrow> if phone_char c then [cs] else [])"
  by (auto simp: phone_class_def phone_char_def split: list.splits)

lemma iter_cls: "t \<in> set (iter (run phone_class) n s) \<longleftrightarrow>
   (\<exists>pre. pre \<noteq> [] \<and> s = pre @ t \<and> list_all phone_char pre \<and> length pre \<le> n)"
proof (induction n arbitrary: s)
  case 0 then show ?case by simp
next
  case (Suc n)
  show ?case
  proof (cases s)
    case Nil then show ?thesis by (simp add: run_cls)
  next
    case (Cons c cs)
    show ?thesis
    proof (cases "phone_char c")
      case False then show ?thesis using Cons by (auto simp: run_cls Cons_eq_append_conv)
    next
      case True
      have "t \<in> set (iter (run phone_class) (Suc n) s) \<longleftrightarrow> t \<in> set (iter (run phone_class) n cs) \<or> t = cs"
        using Cons True by (auto simp: run_cls)
      also have "\<dots> \<longleftrightarrow> (\<exists>pre. pre \<noteq> [] \<and> cs = pre @ t \<and> list_all phone_char pre \<and> length pre \<le> n) \<or> t = cs"
        by (simp add: Suc.IH)
      also have "\<dots> \<longleftrightarrow> (\<exists>pre. pre \<noteq> [] \<and> s = pre @ t \<and> list_all phone_char pre \<and> length pre \<le> Suc n)"
      proof
        assume "(\<exists>pre. pre \<noteq> [] \<and> cs = pre @ t \<and> list_all phone_char pre \<and> length pre \<le> n) \<or> t = cs"
        then show "\<exists>pre. pre \<noteq> [] \<and> s = pre @ t \<and> list_all phone_char pre \<and> length pre \<le> Suc n"
        proof
          assume "\<exists>pre. pre \<noteq> [] \<and> cs = pre @ t \<and> list_all phone_char pre \<and> length pre \<le> n"
          then obtain pre where "pre \<noteq> []" "cs = pre @ t" "list_all phone_char pre" "length pre \<le> n" by blast
          then show ?thesis using Cons True by (intro exI[of _ "c # pre"]) simp
        next
          assume "t = cs"
          then show ?thesis using Cons True by (intro exI[of _ "[c]"]) simp
        qed
      next
        assume "\<exists>pre. pre \<noteq> [] \<and> s = pre @ t \<and> list_all phone_char pre \<and> length pre \<le> Suc n"
        then obtain pre where p: "pre \<noteq> []" "s = pre @ t" "list_all phone_char pre" "length pre \<le> Suc n" by blast
        then obtain pre' where pre: "pre = c # pre'" "cs = pre' @ t" using Cons by (cases pre) auto
        show "(\<exists>pre. pre \<noteq> [] \<and> cs = pre @ t \<and> list_all phone_char pre \<and> length pre \<le> n) \<or> t = cs"
        proof (cases "pre' = []")
          case True then show ?thesis using pre by simp
        next
          case False then show ?thesis using pre p by (intro disjI1 exI[of _ pre']) simp
        qed
      qed
      finally show ?thesis .
    qed
  qed
qed


lemma newline_phone_char: "phone_char (CHR 0x0A)"
  by (simp add: phone_char_def py_isspace_def)

lemma plus_not_phone_char: "\<not> phone_char (CHR ''+'')"
  by (simp add: phone_char_def py_isspace_def py_isdigit_def)

lemma run_Eol_nonempty: "run Eol t \<noteq> [] \<longleftrightarrow> t = [] \<or> t = [CHR 0x0A]"
  by simp

lemma run_body_unfold: "run (Seq (Plus phone_class) Eol) s = concat (map (run Eol) (iter (run phone_class) (length s) s))"
  by simp




lemma nl_rest_phone_chars: "t = [] \<or> t = [CHR 0x0A] \<Longrightarrow> list_all phone_char t"
  using newline_phone_char by (elim disjE) simp_all

lemma run_body: "run (Seq (Plus phone_class) Eol) s \<noteq> [] \<longleftrightarrow> s \<noteq> [] \<and> list_all phone_char s"
proof -
  have "run (Seq (Plus phone_class) Eol) s \<noteq> [] \<longleftrightarrow>
        (\<exists>t \<in> set (iter (run phone_class) (length s) s). run Eol t \<noteq> [])"
    unfolding run_body_unfold by (simp only: concat_eq_Nil_conv set_map) blast
  also have "\<dots> \<longleftrightarrow> (\<exists>t \<in> set (iter (run phone_class) (length s) s). t = [] \<or> t = [CHR 0x0A])"
    by (simp only: run_Eol_nonempty)
  also have "\<dots> \<longleftrightarrow> s \<noteq> [] \<and> list_all phone_char s"
  proof
    assume "\<exists>t \<in> set (iter (run phone_class) (length s) s). t = [] \<or> t = [CHR 0x0A]"
    then obtain t where t: "t \<in> set (iter (run phone_class) (length s) s)" "t = [] \<or> t = [CHR 0x0A]"
      by (rule bexE)
    from t(1) obtain pre where pre: "pre \<noteq> []" "s = pre @ t" "list_all phone_char pre"
      unfolding iter_cls by (elim exE conjE)
    from t(2) have "list_all phone_char t" by (rule nl_rest_phone_chars)
    with pre show "s \<noteq> [] \<and> list_all phone_char s" by simp
  next
    assume a: "s \<noteq> [] \<and> list_all phone_char s"
    have "[] \<in> set (iter (run phone_class) (length s) s)"
      unfolding iter_cls using a by (intro exI[of _ s]) simp
    then show "\<exists>t \<in> set (iter (run phone_class) (length s) s). t = [] \<or> t = [CHR 0x0A]" by blast
  qed
  finally show ?thesis .
qed
lemma run_opt_plus: "run (Opt (Cls [Lit (CHR ''+'')])) s = (case s of [] \<Rightarrow> [s] | c # cs \<Rightarrow> if c = CHR ''+'' then [cs, s] else [s])"
  by (simp split: list.splits)

lemma re_match_phone_pattern: "re_match phone_pattern s = phone_format s"
proof (cases s)
  case Nil
  then show ?thesis
    using run_body[of "[]"] by (simp add: re_match_def phone_pattern_def phone_format_def del: run.simps(4))
next
  case (Cons c cs)
  show ?thesis
  proof (cases "c = CHR ''+''")
    case True
    have "\<not> (s \<noteq> [] \<and> list_all phone_char s)" using Cons True plus_not_phone_char by simp
    then have "run (Seq (Plus phone_class) Eol) s = []" using run_body[of s] by blast
    moreover have "run phone_pattern s = run (Seq (Plus phone_class) Eol) cs @ run (Seq (Plus phone_class) Eol) s"
      unfolding phone_pattern_def using Cons True by (simp del: run.simps(4))
    ultimately show ?thesis using run_body[of cs] Cons True
      by (simp add: re_match_def phone_format_def)
  next
    case False
    have "run phone_pattern s = run (Seq (Plus phone_class) Eol) s"
      unfolding phone_pattern_def using Cons False by (simp del: run.simps(4))
    then show ?thesis using run_body[of s] Cons False
      by (simp add: re_match_def phone_format_def)
  qed
qed

text \<open>
  C8 as stated: validation passes exactly for the strings that match the pattern. The
  guard \<open>if not phone: return True\<close> accepts the empty string, which the pattern (one
  or more class characters) rejects.
\<close>

theorem validate_phone_empty_counterexample:
  "\<not> (validate_phone (Some []) \<longleftrightarrow> re_match phone_pattern [])"
  by (simp add: validate_phone_def re_match_phone_pattern phone_format_def)

text \<open>
  C8, amended: an absent or empty phone passes validation; a non-empty phone passes
  exactly when it matches \<open>^\+?[\d\-\(\)\s]+$\<close>, and the strings matching the pattern
  are exactly those made of an optional leading \<open>+\<close> followed by one or more digits,
  hyphens, parentheses or whitespace characters.
\<close>

theorem validate_phone_spec:
  "validate_phone None \<and> validate_phone (Some []) \<and>
   (s \<noteq> [] \<longrightarrow> (validate_phone (Some s) \<longleftrightarrow> re_match phone_pattern s)) \<and>
   (re_match phone_pattern s \<longleftrightarrow> phone_format s)"
  by (simp add: validate_phone_def re_match_phone_pattern)

theorem validate_phone_spec_witness:
  "''+1 (234) 567-890'' \<noteq> [] \<and> validate_phone (Some ''+1 (234) 567-890'') \<and>
   re_match phone_pattern ''+1 (234) 567-890''"
  using validate_phone_spec [of "''+1 (234) 567-890''"]
  by (simp add: phone_format_def phone_char_def py_isdigit_def py_isspace_def)

section \<open>Customer creation\<close>

lemma validate_email_unique_None:
  "validate_email_unique d email None \<longleftrightarrow> email \<notin> set (map c_email (customer_table d))"
  by (auto simp: validate_email_unique_def filter_empty_conv)

lemma validate_phone_falsy: "\<not> truthy p \<Longrightarrow> validate_phone p"
  by (auto simp: truthy_def validate_phone_def split: option.splits)

lemma customer_errors_Nil:
  "customer_errors d input = [] \<longleftrightarrow>
     ci_email input \<notin> set (map c_email (customer_table d)) \<and> validate_phone (ci_phone input)"
  using validate_phone_falsy[of "ci_phone input"]
  by (auto simp: customer_errors_def validate_email_unique_None)

lemma email_error_listed:
  "ci_email input \<in> set (map c_email (customer_table d)) \<Longrightarrow>
   \<lparr>field = ''email'', message = ''Email already exists''\<rparr> \<in> set (customer_errors d input)"
  by (simp add: customer_errors_def validate_email_unique_None)

text \<open>
  C2: when no customer has the email, the first of two \<open>CreateCustomer\<close> calls with that
  email (and a phone that passes validation) creates and returns the customer with the
  success message; the second, run on the resulting store, creates nothing and returns
  a field error on \<open>email\<close> saying that the email already exists.
\<close>

theorem CreateCustomer_twice:
  assumes fresh: "ci_email i1 \<notin> set (map c_email (customer_table d))"
    and same: "ci_email i2 = ci_email i1"
    and phone: "validate_phone (ci_phone i1)"
  shows "\<exists>c d1 errs.
     CreateCustomer_mutate d t1 i1 =
       (\<lparr>entity = Some c,
         info = ''Customer '' @ [CHR 0x27] @ ci_name i1 @ [CHR 0x27] @ '' created successfully'',
         errors = None\<rparr>, d1) \<and>
     c_email c = ci_email i1 \<and> customer_table d1 = customer_table d @ [c] \<and>
     CreateCustomer_mutate d1 t2 i2 =
       (\<lparr>entity = None, info = ''Validation failed'', errors = Some errs\<rparr>, d1) \<and>
     \<lparr>field = ''email'', message = ''Email already exists''\<rparr> \<in> set errs"
proof -
  let ?c = "\<lparr>c_id = fresh_id (map c_id (customer_table d)), c_name = ci_name i1,
             c_email = ci_email i1, c_phone = Some (or_empty (ci_phone i1)), c_created_at = t1\<rparr>"
  let ?d1 = "d\<lparr>customer_table := customer_table d @ [?c]\<rparr>"
  have e1: "customer_errors d i1 = []"
    using fresh phone by (simp add: customer_errors_Nil)
  have first: "CreateCustomer_mutate d t1 i1 =
       (\<lparr>entity = Some ?c,
         info = ''Customer '' @ [CHR 0x27] @ ci_name i1 @ [CHR 0x27] @ '' created successfully'',
         errors = None\<rparr>, ?d1)"
    using fresh by (simp add: CreateCustomer_mutate_def e1 Customer_objects_create_def Let_def)
  have dup: "ci_email i2 \<in> set (map c_email (customer_table ?d1))"
    using same by simp
  then have listed: "\<lparr>field = ''email'', message = ''Email already exists''\<rparr> \<in> set (customer_errors ?d1 i2)"
    by (rule email_error_listed)
  then have ne: "customer_errors ?d1 i2 \<noteq> []" by auto
  have second: "CreateCustomer_mutate ?d1 t2 i2 =
       (\<lparr>entity = None, info = ''Validation failed'', errors = Some (customer_errors ?d1 i2)\<rparr>, ?d1)"
    using ne by (simp add: CreateCustomer_mutate_def Let_def)
  show ?thesis
    using first second listed by (intro exI[of _ ?c] exI[of _ ?d1] exI[of _ "customer_errors ?d1 i2"]) simp
qed

theorem CreateCustomer_twice_witness:
  "ci_email carol \<notin> set (map c_email (customer_table seed_db)) \<and> validate_phone (ci_phone carol) \<and>
   (\<exists>c d1 errs.
     CreateCustomer_mutate seed_db 5 carol =
       (\<lparr>entity = Some c,
         info = ''Customer '' @ [CHR 0x27] @ ci_name carol @ [CHR 0x27] @ '' created successfully'',
         errors = None\<rparr>, d1) \<and>
     c_email c = ci_email carol \<and> customer_table d1 = customer_table seed_db @ [c] \<and>
     CreateCustomer_mutate d1 6 carol =
       (\<lparr>entity = None, info = ''Validation failed'', errors = Some errs\<rparr>, d1) \<and>
     \<lparr>field = ''email'', message = ''Email already exists''\<rparr> \<in> set errs)"
proof -
  have h1: "ci_email carol \<notin> set (map c_email (customer_table seed_db))"
    by (simp add: carol_def seed_db_def seed_customers_def)
  have h2: "validate_phone (ci_phone carol)"
    by (simp add: carol_def validate_phone_def)
  from CreateCustomer_twice[OF h1 refl h2, of 5 6] h1 h2 show ?thesis by blast
qed

section \<open>Bulk customer creation\<close>

lemma create_ok:
  "customer_errors d r = [] \<Longrightarrow>
   Customer_objects_create d now (ci_name r) (ci_email r) (or_empty (ci_phone r)) =
     Inr (\<lparr>c_id = fresh_id (map c_id (customer_table d)), c_name = ci_name r,
             c_email = ci_email r, c_phone = Some (or_empty (ci_phone r)), c_created_at = now\<rparr>,
          d\<lparr>customer_table := customer_table d @
             [\<lparr>c_id = fresh_id (map c_id (customer_table d)), c_name = ci_name r,
               c_email = ci_email r, c_phone = Some (or_empty (ci_phone r)), c_created_at = now\<rparr>]\<rparr>)"
  by (simp add: customer_errors_Nil Customer_objects_create_def Let_def)

lemma bulk_loop_bad:
  "customer_errors d r \<noteq> [] \<Longrightarrow>
   bulk_loop now d i (r # rest) cs es =
     bulk_loop now d (Suc i) rest cs (es @ [\<lparr>index = i, row_errors = customer_errors d r\<rparr>])"
  by (simp add: Let_def)

lemma bulk_loop_good:
  "customer_errors d r = [] \<Longrightarrow>
   bulk_loop now d i (r # rest) cs es =
     bulk_loop now
       (d\<lparr>customer_table := customer_table d @
             [\<lparr>c_id = fresh_id (map c_id (customer_table d)), c_name = ci_name r,
               c_email = ci_email r, c_phone = Some (or_empty (ci_phone r)), c_created_at = now\<rparr>]\<rparr>)
       (Suc i) rest
       (cs @ [\<lparr>c_id = fresh_id (map c_id (customer_table d)), c_name = ci_name r,
               c_email = ci_email r, c_phone = Some (or_empty (ci_phone r)), c_created_at = now\<rparr>]) es"
  by (simp add: create_ok del: customer_errors_Nil)

lemma bulk_loop_acc:
  "bulk_loop now d i xs cs es =
     (case bulk_loop now d i xs [] [] of (d', cs', es') \<Rightarrow> (d', cs @ cs', es @ es'))"
proof (induction xs arbitrary: d i cs es)
  case Nil
  show ?case by simp
next
  case (Cons r rest)
  show ?case
  proof (cases "customer_errors d r = []")
    case True
    show ?thesis
      unfolding bulk_loop_good[OF True]
      by (subst Cons.IH, subst (2) Cons.IH) (simp split: prod.splits)
  next
    case False
    show ?thesis
      unfolding bulk_loop_bad[OF False]
      by (subst Cons.IH, subst (2) Cons.IH) (simp split: prod.splits)
  qed
qed

lemma bulk_loop_append:
  "bulk_loop now d i (xs @ ys) cs es =
     (case bulk_loop now d i xs cs es of (d', cs', es') \<Rightarrow> bulk_loop now d' (i + length xs) ys cs' es')"
proof (induction xs arbitrary: d i cs es)
  case Nil
  show ?case by simp
next
  case (Cons r rest)
  show ?case
  proof (cases "customer_errors d r = []")
    case True
    show ?thesis
      using Cons.IH by (simp add: bulk_loop_good[OF True] del: bulk_loop.simps)
  next
    case False
    show ?thesis
      using Cons.IH by (simp add: bulk_loop_bad[OF False] del: bulk_loop.simps)
  qed
qed

lemma bulk_loop_table:
  "bulk_loop now d i xs cs es = (d', cs', es') \<Longrightarrow>
   \<exists>new. cs' = cs @ new \<and> customer_table d' = customer_table d @ new \<and>
         product_table d' = product_table d \<and> order_table d' = order_table d"
proof (induction xs arbitrary: d i cs es)
  case Nil
  then show ?case by simp
next
  case (Cons r rest)
  show ?case
  proof (cases "customer_errors d r = []")
    case True
    from Cons.prems[unfolded bulk_loop_good[OF True]] Cons.IH
    obtain new where "cs' = (cs @ [\<lparr>c_id = fresh_id (map c_id (customer_table d)), c_name = ci_name r,
               c_email = ci_email r, c_phone = Some (or_empty (ci_phone r)), c_created_at = now\<rparr>]) @ new"
      "customer_table d' = customer_table (d\<lparr>customer_table := customer_table d @
             [\<lparr>c_id = fresh_id (map c_id (customer_table d)), c_name = ci_name r,
               c_email = ci_email r, c_phone = Some (or_empty (ci_phone r)), c_created_at = now\<rparr>]\<rparr>) @ new"
      "product_table d' = product_table d" "order_table d' = order_table d"
      by fastforce
    then show ?thesis by simp
  next
    case False
    from Cons.prems[unfolded bulk_loop_bad[OF False]] Cons.IH
    show ?thesis by blast
  qed
qed

lemma bulk_loop_count:
  "bulk_loop now d i xs cs es = (d', cs', es') \<Longrightarrow>
   length cs' + length es' = length cs + length es + length xs"
proof (induction xs arbitrary: d i cs es)
  case Nil
  then show ?case by simp
next
  case (Cons r rest)
  show ?case
  proof (cases "customer_errors d r = []")
    case True
    from Cons.IH[OF Cons.prems[unfolded bulk_loop_good[OF True]]] show ?thesis by simp
  next
    case False
    from Cons.IH[OF Cons.prems[unfolded bulk_loop_bad[OF False]]] show ?thesis by simp
  qed
qed

lemma bulk_loop_errs_prefix:
  "bulk_loop now d i xs cs es = (d', cs', es') \<Longrightarrow> \<exists>more. es' = es @ more"
proof (induction xs arbitrary: d i cs es)
  case Nil
  then show ?case by simp
next
  case (Cons r rest)
  show ?case
  proof (cases "customer_errors d r = []")
    case True
    from Cons.IH[OF Cons.prems[unfolded bulk_loop_good[OF True]]] show ?thesis by simp
  next
    case False
    from Cons.IH[OF Cons.prems[unfolded bulk_loop_bad[OF False]]] show ?thesis by auto
  qed
qed

lemma mutate_store: "snd (BulkCreateCustomers_mutate d now xs) = fst (bulk_loop now d 0 xs [] [])"
  by (simp add: BulkCreateCustomers_mutate_def split: prod.splits)

lemma bulk_row:
  assumes run: "bulk_loop now d 0 input [] [] = (d', cs', es')" and i: "i < length input"
  shows "let di = fst (bulk_loop now d 0 (take i input) [] []);
             di' = fst (bulk_loop now d 0 (take (Suc i) input) [] []);
             r = input ! i
         in if customer_errors di r = []
            then \<exists>c. customer_table di' = customer_table di @ [c] \<and> c \<in> set cs' \<and>
                   c_name c = ci_name r \<and> c_email c = ci_email r \<and>
                   c_phone c = Some (or_empty (ci_phone r))
            else di' = di \<and> \<lparr>index = i, row_errors = customer_errors di r\<rparr> \<in> set es'"
proof -
  obtain di csi esi where pre: "bulk_loop now d 0 (take i input) [] [] = (di, csi, esi)"
    by (cases "bulk_loop now d 0 (take i input) [] []") auto
  let ?r = "input ! i"
  let ?rest = "drop (Suc i) input"
  have split: "input = take i input @ ?r # ?rest"
    using i by (simp add: id_take_nth_drop)
  have len: "length (take i input) = i" using i by simp
  have whole: "bulk_loop now d 0 input [] [] = bulk_loop now di i (?r # ?rest) csi esi"
    by (subst split, subst bulk_loop_append) (simp only: pre len prod.case add_0)
  have next_take: "take (Suc i) input = take i input @ [?r]"
    using i by (simp add: take_Suc_conv_app_nth)
  have next_run: "bulk_loop now d 0 (take (Suc i) input) [] [] = bulk_loop now di i [?r] csi esi"
    by (subst next_take, subst bulk_loop_append) (simp only: pre len prod.case add_0)
  show ?thesis
  proof (cases "customer_errors di ?r = []")
    case True
    let ?c = "\<lparr>c_id = fresh_id (map c_id (customer_table di)), c_name = ci_name ?r,
               c_email = ci_email ?r, c_phone = Some (or_empty (ci_phone ?r)), c_created_at = now\<rparr>"
    let ?di' = "di\<lparr>customer_table := customer_table di @ [?c]\<rparr>"
    have "bulk_loop now ?di' (Suc i) ?rest (csi @ [?c]) esi = (d', cs', es')"
      using run whole bulk_loop_good[OF True] by simp
    then obtain new where "cs' = (csi @ [?c]) @ new"
      using bulk_loop_table by blast
    then have mem: "?c \<in> set cs'" by simp
    have "bulk_loop now d 0 (take (Suc i) input) [] [] = (?di', csi @ [?c], esi)"
      using next_run bulk_loop_good[OF True, of now i "[]" csi esi] by simp
    then have "customer_table (fst (bulk_loop now d 0 (take (Suc i) input) [] [])) = customer_table di @ [?c]"
      by simp
    then show ?thesis
      using True mem pre by (simp add: Let_def del: bulk_loop.simps) 
  next
    case False
    let ?e = "\<lparr>index = i, row_errors = customer_errors di ?r\<rparr>"
    have "bulk_loop now di (Suc i) ?rest csi (esi @ [?e]) = (d', cs', es')"
      using run whole bulk_loop_bad[OF False] by simp
    then obtain more where "es' = (esi @ [?e]) @ more"
      using bulk_loop_errs_prefix by blast
    then have mem: "?e \<in> set es'" by simp
    have "bulk_loop now d 0 (take (Suc i) input) [] [] = (di, csi, esi @ [?e])"
      using next_run bulk_loop_bad[OF False, of now i "[]" csi esi] by simp
    then show ?thesis
      using False mem pre by (simp add: Let_def del: bulk_loop.simps)
  qed
qed

text \<open>
  C3: the customers returned by \<open>BulkCreateCustomers\<close> are exactly the rows added to the
  store, and every row is either created or reported. Row \<open>i\<close> is judged in the store
  that the rows before it have left: when it passes validation its customer is created
  there, committed and returned; when it fails it leaves the store as it was and is
  reported with its index and its errors. Rows after a failing row are processed all
  the same.
\<close>

theorem BulkCreateCustomers_partial_success:
  assumes "BulkCreateCustomers_mutate d now input = (out, d')"
  shows "customer_table d' = customer_table d @ bulk_customers out \<and>
         length (bulk_customers out) + length (bulk_errors out) = length input \<and>
         (\<forall>i < length input.
            let di = snd (BulkCreateCustomers_mutate d now (take i input));
                di' = snd (BulkCreateCustomers_mutate d now (take (Suc i) input));
                r = input ! i
            in if customer_errors di r = []
               then \<exists>c. customer_table di' = customer_table di @ [c] \<and> c \<in> set (bulk_customers out) \<and>
                      c_name c = ci_name r \<and> c_email c = ci_email r \<and>
                      c_phone c = Some (or_empty (ci_phone r))
               else di' = di \<and> \<lparr>index = i, row_errors = customer_errors di r\<rparr> \<in> set (bulk_errors out))"
proof -
  obtain cs' es' where run: "bulk_loop now d 0 input [] [] = (d', cs', es')"
    and out: "out = \<lparr>bulk_customers = cs', bulk_errors = es'\<rparr>"
    using assms by (auto simp: BulkCreateCustomers_mutate_def split: prod.splits)
  have a: "customer_table d' = customer_table d @ bulk_customers out"
    using bulk_loop_table[OF run] out by simp
  have b: "length (bulk_customers out) + length (bulk_errors out) = length input"
    using bulk_loop_count[OF run] out by simp
  have c: "\<forall>i < length input.
            let di = snd (BulkCreateCustomers_mutate d now (take i input));
                di' = snd (BulkCreateCustomers_mutate d now (take (Suc i) input));
                r = input ! i
            in if customer_errors di r = []
               then \<exists>c. customer_table di' = customer_table di @ [c] \<and> c \<in> set (bulk_customers out) \<and>
                      c_name c = ci_name r \<and> c_email c = ci_email r \<and>
                      c_phone c = Some (or_empty (ci_phone r))
               else di' = di \<and> \<lparr>index = i, row_errors = customer_errors di r\<rparr> \<in> set (bulk_errors out)"
  proof (intro allI impI)
    fix i assume "i < length input"
    from bulk_row[OF run this] show "let di = snd (BulkCreateCustomers_mutate d now (take i input));
                di' = snd (BulkCreateCustomers_mutate d now (take (Suc i) input));
                r = input ! i
            in if customer_errors di r = []
               then \<exists>c. customer_table di' = customer_table di @ [c] \<and> c \<in> set (bulk_customers out) \<and>
                      c_name c = ci_name r \<and> c_email c = ci_email r \<and>
                      c_phone c = Some (or_empty (ci_phone r))
               else di' = di \<and> \<lparr>index = i, row_errors = customer_errors di r\<rparr> \<in> set (bulk_errors out)"
      unfolding mutate_store out by (simp only: BulkCreateCustomersOutput.select_convs)
  qed
  from a b c show ?thesis by (intro conjI)
qed

theorem BulkCreateCustomers_partial_success_witness:
  "map c_email (bulk_customers (fst (BulkCreateCustomers_mutate seed_db 7 [carol, bob_again, david]))) =
     [''carol@example.com'', ''david@example.com''] \<and>
   bulk_errors (fst (BulkCreateCustomers_mutate seed_db 7 [carol, bob_again, david])) =
     [\<lparr>index = 1, row_errors = [\<lparr>field = ''email'', message = ''Email already exists''\<rparr>]\<rparr>] \<and>
   customer_table (snd (BulkCreateCustomers_mutate seed_db 7 [carol, bob_again, david])) =
     customer_table seed_db @ bulk_customers (fst (BulkCreateCustomers_mutate seed_db 7 [carol, bob_again, david]))"
proof -
  have "customer_table (snd (BulkCreateCustomers_mutate seed_db 7 [carol, bob_again, david])) =
     customer_table seed_db @ bulk_customers (fst (BulkCreateCustomers_mutate seed_db 7 [carol, bob_again, david]))"
    using BulkCreateCustomers_partial_success[OF prod.collapse[symmetric]] by blast
  moreover have "map c_email (bulk_customers (fst (BulkCreateCustomers_mutate seed_db 7 [carol, bob_again, david]))) =
     [''carol@example.com'', ''david@example.com'']"
    by (simp add: BulkCreateCustomers_mutate_def customer_errors_def validate_email_unique_def
        Customer_objects_create_def carol_def bob_again_def david_def seed_db_def seed_customers_def
        truthy_def validate_phone_def re_match_phone_pattern phone_format_def phone_char_def
        py_isdigit_def py_isspace_def Let_def or_empty_def)
  moreover have "bulk_errors (fst (BulkCreateCustomers_mutate seed_db 7 [carol, bob_again, david])) =
     [\<lparr>index = 1, row_errors = [\<lparr>field = ''email'', message = ''Email already exists''\<rparr>]\<rparr>]"
    by (simp add: BulkCreateCustomers_mutate_def customer_errors_def validate_email_unique_def
        Customer_objects_create_def carol_def bob_again_def david_def seed_db_def seed_customers_def
        truthy_def validate_phone_def re_match_phone_pattern phone_format_def phone_char_def
        py_isdigit_def py_isspace_def Let_def or_empty_def)
  ultimately show ?thesis by (intro conjI)
qed

section \<open>Product creation\<close>

lemma product_errors_price:
  "pi_price input \<le> 0 \<Longrightarrow>
   \<lparr>field = ''price'', message = ''Price must be positive''\<rparr> \<in> set (product_errors input)"
  by (simp add: product_errors_def)

lemma product_errors_none:
  "0 < pi_price input \<Longrightarrow> (\<forall>s. pi_stock input = Some s \<longrightarrow> 0 \<le> s) \<Longrightarrow> product_errors input = []"
  by (auto simp: product_errors_def)

lemma CreateProduct_valid:
  assumes "product_errors input = []"
  shows "CreateProduct_mutate d input =
     (if decimal_fits (pi_price input)
      then (\<lparr>entity = Some \<lparr>p_id = fresh_id (map p_id (product_table d)), p_name = pi_name input,
                              p_price = pi_price input,
                              p_stock = (case pi_stock input of None \<Rightarrow> 0 | Some s \<Rightarrow> s)\<rparr>,
             info = ''Product '' @ [CHR 0x27] @ pi_name input @ [CHR 0x27] @ '' created successfully'',
             errors = None\<rparr>,
            d\<lparr>product_table := product_table d @
                [\<lparr>p_id = fresh_id (map p_id (product_table d)), p_name = pi_name input,
                  p_price = quantize2 (pi_price input),
                  p_stock = (case pi_stock input of None \<Rightarrow> 0 | Some s \<Rightarrow> s)\<rparr>]\<rparr>)
      else (\<lparr>entity = None, info = ''Failed to create product'',
             errors = Some [\<lparr>field = ''general'', message = exn_str InvalidOperation\<rparr>]\<rparr>, d))"
  using assms by (simp add: CreateProduct_mutate_def Product_objects_create_def Let_def)

text \<open>
  C4: a price less than or equal to zero yields the field error on \<open>price\<close> with a null
  product and an unchanged store. A positive price with a non-negative or absent stock
  yields no error on \<open>price\<close> or \<open>stock\<close>: the product is created, its price stored
  with two decimal places, unless the price needs more than ten digits, which is
  reported on the field \<open>general\<close>.
\<close>

theorem CreateProduct_price:
  "(pi_price input \<le> 0 \<longrightarrow>
      (\<exists>errs. CreateProduct_mutate d input =
          (\<lparr>entity = None, info = ''Validation failed'', errors = Some errs\<rparr>, d) \<and>
        \<lparr>field = ''price'', message = ''Price must be positive''\<rparr> \<in> set errs)) \<and>
   (0 < pi_price input \<and> (\<forall>s. pi_stock input = Some s \<longrightarrow> 0 \<le> s) \<longrightarrow>
      (\<forall>e \<in> set (case errors (fst (CreateProduct_mutate d input)) of None \<Rightarrow> [] | Some es \<Rightarrow> es).
          field e \<noteq> ''price'' \<and> field e \<noteq> ''stock'') \<and>
      (decimal_fits (pi_price input) \<longrightarrow>
         (\<exists>p d'. CreateProduct_mutate d input =
            (\<lparr>entity = Some p,
              info = ''Product '' @ [CHR 0x27] @ pi_name input @ [CHR 0x27] @ '' created successfully'',
              errors = None\<rparr>, d') \<and>
            p_price p = pi_price input \<and>
            product_table d' = product_table d @ [p\<lparr>p_price := quantize2 (pi_price input)\<rparr>])) \<and>
      (\<not> decimal_fits (pi_price input) \<longrightarrow>
         CreateProduct_mutate d input =
           (\<lparr>entity = None, info = ''Failed to create product'',
             errors = Some [\<lparr>field = ''general'', message = exn_str InvalidOperation\<rparr>]\<rparr>, d)))"
proof (intro conjI impI)
  assume "pi_price input \<le> 0"
  then have m: "\<lparr>field = ''price'', message = ''Price must be positive''\<rparr> \<in> set (product_errors input)"
    by (rule product_errors_price)
  then have "product_errors input \<noteq> []" by auto
  then have "CreateProduct_mutate d input =
          (\<lparr>entity = None, info = ''Validation failed'', errors = Some (product_errors input)\<rparr>, d)"
    by (simp add: CreateProduct_mutate_def Let_def)
  with m show "\<exists>errs. CreateProduct_mutate d input =
          (\<lparr>entity = None, info = ''Validation failed'', errors = Some errs\<rparr>, d) \<and>
        \<lparr>field = ''price'', message = ''Price must be positive''\<rparr> \<in> set errs"
    by blast
next
  assume a: "0 < pi_price input \<and> (\<forall>s. pi_stock input = Some s \<longrightarrow> 0 \<le> s)"
  then have e: "product_errors input = []" by (simp add: product_errors_none)
  show "\<forall>e \<in> set (case errors (fst (CreateProduct_mutate d input)) of None \<Rightarrow> [] | Some es \<Rightarrow> es).
          field e \<noteq> ''price'' \<and> field e \<noteq> ''stock''"
    unfolding CreateProduct_valid[OF e] by simp
next
  assume a: "0 < pi_price input \<and> (\<forall>s. pi_stock input = Some s \<longrightarrow> 0 \<le> s)"
    and fits: "decimal_fits (pi_price input)"
  from a have e: "product_errors input = []" by (simp add: product_errors_none)
  show "\<exists>p d'. CreateProduct_mutate d input =
            (\<lparr>entity = Some p,
              info = ''Product '' @ [CHR 0x27] @ pi_name input @ [CHR 0x27] @ '' created successfully'',
              errors = None\<rparr>, d') \<and>
            p_price p = pi_price input \<and>
            product_table d' = product_table d @ [p\<lparr>p_price := quantize2 (pi_price input)\<rparr>]"
    unfolding CreateProduct_valid[OF e] using fits by simp
next
  assume a: "0 < pi_price input \<and> (\<forall>s. pi_stock input = Some s \<longrightarrow> 0 \<le> s)"
    and nofit: "\<not> decimal_fits (pi_price input)"
  from a have e: "product_errors input = []" by (simp add: product_errors_none)
  show "CreateProduct_mutate d input =
           (\<lparr>entity = None, info = ''Failed to create product'',
             errors = Some [\<lparr>field = ''general'', message = exn_str InvalidOperation\<rparr>]\<rparr>, d)"
    unfolding CreateProduct_valid[OF e] using nofit by simp
qed

lemma decimal_examples:
  "decimal_fits (8999 / 100)" "\<not> decimal_fits 123456789" "quantize2 (8999 / 100) = 8999 / 100"
  by (simp_all add: decimal_fits_def quantize2_def round_half_even_def Let_def)

lemma rounding_examples:
  "quantize2 (1 / 1000) = 0" "quantize2 (5 / 1000) = 0" "quantize2 (15 / 1000) = 2 / 100"
  "quantize2 (125 / 1000) = 12 / 100" "quantize2 (- (15 / 1000)) = - (2 / 100)"
  by code_simp+

text \<open>
  C4 on the seed data: a price of zero is refused and nothing is stored; a webcam at
  89.99 is created; a price of 123456789 passes validation and fails in the store.
\<close>

theorem CreateProduct_price_witness:
  "(\<exists>errs. CreateProduct_mutate seed_db \<lparr>pi_name = ''Free'', pi_price = 0, pi_stock = Some 3\<rparr> =
          (\<lparr>entity = None, info = ''Validation failed'', errors = Some errs\<rparr>, seed_db) \<and>
        \<lparr>field = ''price'', message = ''Price must be positive''\<rparr> \<in> set errs) \<and>
   (\<exists>p d'. CreateProduct_mutate seed_db \<lparr>pi_name = ''Webcam'', pi_price = 8999 / 100, pi_stock = None\<rparr> =
          (\<lparr>entity = Some p,
            info = ''Product '' @ [CHR 0x27] @ ''Webcam'' @ [CHR 0x27] @ '' created successfully'',
            errors = None\<rparr>, d') \<and>
        p_price p = 8999 / 100 \<and>
        product_table d' = product_table seed_db @ [p\<lparr>p_price := 8999 / 100\<rparr>]) \<and>
   CreateProduct_mutate seed_db \<lparr>pi_name = ''Yacht'', pi_price = 123456789, pi_stock = None\<rparr> =
     (\<lparr>entity = None, info = ''Failed to create product'',
       errors = Some [\<lparr>field = ''general'', message = exn_str InvalidOperation\<rparr>]\<rparr>, seed_db)"
  using CreateProduct_price[of "\<lparr>pi_name = ''Free'', pi_price = 0, pi_stock = Some 3\<rparr>" seed_db]
        CreateProduct_price[of "\<lparr>pi_name = ''Webcam'', pi_price = 8999 / 100, pi_stock = None\<rparr>" seed_db]
        CreateProduct_price[of "\<lparr>pi_name = ''Yacht'', pi_price = 123456789, pi_stock = None\<rparr>" seed_db]
  by (simp add: decimal_examples)

section \<open>Integers and their decimal strings\<close>

lemma digit_char_isdigit: "d < 10 \<Longrightarrow> py_isdigit (digit_char d)"
  by (simp add: py_isdigit_def digit_char_def)

lemma digit_value_char: "d < 10 \<Longrightarrow> digit_value (digit_char d) = d"
  by (simp add: digit_value_def digit_char_def)

lemma isdigit_not_space: "py_isdigit c \<Longrightarrow> \<not> int_isspace c"
  by (simp add: py_isdigit_def int_isspace_def Let_def)

lemma isdigit_not_sign: "py_isdigit c \<Longrightarrow> c \<noteq> CHR ''-'' \<and> c \<noteq> CHR ''+''"
  by (auto simp: py_isdigit_def)

lemma digits_value_digits:
  "list_all py_isdigit ds \<Longrightarrow> ds \<noteq> [] \<or> prev \<Longrightarrow>
   digits_value prev acc ds = Some (foldl (\<lambda>a c. a * 10 + digit_value c) acc ds)"
  by (induction ds arbitrary: prev acc) auto

lemma str_nat_digits: "list_all py_isdigit (str_nat n) \<and> str_nat n \<noteq> []"
proof (induction n rule: str_nat.induct)
  case (1 n)
  show ?case
  proof (cases "n < 10")
    case True
    have "str_nat n = [digit_char n]" using True by (subst str_nat.simps) simp
    then show ?thesis using True by (simp add: digit_char_isdigit)
  next
    case False
    have "str_nat n = str_nat (n div 10) @ [digit_char (n mod 10)]"
      using False by (subst str_nat.simps) simp
    then show ?thesis using "1.IH"[OF False] by (simp add: digit_char_isdigit)
  qed
qed

lemma str_nat_value: "foldl (\<lambda>a c. a * 10 + digit_value c) 0 (str_nat n) = n"
proof (induction n rule: str_nat.induct)
  case (1 n)
  show ?case
  proof (cases "n < 10")
    case True
    have "str_nat n = [digit_char n]" using True by (subst str_nat.simps) simp
    then show ?thesis using True by (simp add: digit_value_char)
  next
    case False
    have "str_nat n = str_nat (n div 10) @ [digit_char (n mod 10)]"
      using False by (subst str_nat.simps) simp
    then show ?thesis using "1.IH"[OF False] by (simp add: digit_value_char)
  qed
qed

lemma dropWhile_digits: "list_all py_isdigit ds \<Longrightarrow> dropWhile int_isspace ds = ds"
  by (cases ds) (simp_all add: isdigit_not_space)

lemma strip_digits: "list_all py_isdigit ds \<Longrightarrow> strip ds = ds"
proof -
  assume a: "list_all py_isdigit ds"
  then have "list_all py_isdigit (rev ds)" by (simp add: list_all_iff)
  then have "dropWhile int_isspace (rev ds) = rev ds" by (rule dropWhile_digits)
  then show ?thesis using dropWhile_digits[OF a] by (simp add: strip_def)
qed

lemma filter_digits: "list_all py_isdigit ds \<Longrightarrow> filter py_isdigit ds = ds"
  by (simp add: list_all_iff)

lemma py_int_digits:
  assumes d: "list_all py_isdigit ds" and ne: "ds \<noteq> []"
  shows "py_int ds = (if int_max_str_digits < length ds then None
                      else Some (int (foldl (\<lambda>a c. a * 10 + digit_value c) 0 ds)))"
proof -
  obtain c cs where cs: "ds = c # cs" using ne by (cases ds) auto
  have c: "c \<noteq> CHR ''-''" "c \<noteq> CHR ''+''" using d cs isdigit_not_sign[of c] by auto
  have v: "digits_value False 0 ds = Some (foldl (\<lambda>a c. a * 10 + digit_value c) 0 ds)"
    using ne by (intro digits_value_digits[OF d]) simp
  have "py_int ds = (if int_max_str_digits < length (filter py_isdigit ds) then None
                     else map_option int (digits_value False 0 ds))"
    unfolding py_int_def strip_digits[OF d] using cs c by (simp del: digits_value.simps)
  then show ?thesis by (simp add: v filter_digits[OF d])
qed

lemma py_int_str_nat:
  "py_int (str_nat n) = (if int_max_str_digits < length (str_nat n) then None else Some (int n))"
  using py_int_digits[of "str_nat n"] str_nat_digits[of n] by (simp add: str_nat_value)

lemma py_int_str_nat_Some: "py_int (str_nat n) = Some k \<Longrightarrow> k = int n"
  by (simp add: py_int_str_nat split: if_splits)

lemma str_nat_inj: "str_nat m = str_nat n \<longleftrightarrow> m = n"
proof
  assume "str_nat m = str_nat n"
  then have "foldl (\<lambda>a c. a * 10 + digit_value c) 0 (str_nat m) =
             foldl (\<lambda>a c. a * 10 + digit_value c) 0 (str_nat n)" by simp
  then show "m = n" by (simp only: str_nat_value)
qed simp

section \<open>Order creation\<close>

lemma le_foldr_max: "x \<in> set ids \<Longrightarrow> x \<le> foldr max ids (0::nat)"
  by (induction ids) auto

lemma fresh_id_notin: "fresh_id ids \<notin> set ids"
proof
  assume "fresh_id ids \<in> set ids"
  then have "fresh_id ids \<le> foldr max ids 0" by (rule le_foldr_max)
  then show False by (simp add: fresh_id_def)
qed

lemma find_fresh:
  "i \<notin> set (map o_id rows) \<Longrightarrow> o_id row = i \<Longrightarrow>
   find (\<lambda>r. o_id r = i) (rows @ [row]) = Some row"
  by (induction rows) auto

lemma map_fresh:
  "i \<notin> set (map o_id rows) \<Longrightarrow> map (\<lambda>r. if o_id r = i then f r else r) rows = rows"
  by (induction rows) auto

text \<open>The four storage steps of a successful order creation, taken together.\<close>

lemma order_pipeline:
  fixes ps :: "Product list"
  assumes c: "Order_objects_create d customer date = (order, d1)"
  defines "d2 \<equiv> products_set d1 order ps"
  defines "order' \<equiv> snd (calculate_total_amount d2 order)"
  assumes s: "order_save d2 order' = Inr d3"
  shows "order_table d3 = order_table d @ [order'\<lparr>o_products := map p_id ps\<rparr>]"
    and "product_table d3 = product_table d"
    and "customer_table d3 = customer_table d"
    and "o_id order' = fresh_id (map o_id (order_table d))"
    and "o_customer order' = c_id customer"
    and "o_total_amount order' =
           sum_list (map p_price (filter (\<lambda>p. p_id p \<in> set (map p_id ps)) (product_table d)))"
    and "products_all d3 order' = filter (\<lambda>p. p_id p \<in> set (map p_id ps)) (product_table d)"
proof -
  let ?i = "fresh_id (map o_id (order_table d))"
  have fresh: "?i \<notin> set (map o_id (order_table d))" by (rule fresh_id_notin)
  have order: "order = \<lparr>o_id = ?i, o_customer = c_id customer, o_products = [],
                         o_total_amount = 0, o_order_date = date\<rparr>"
    and d1: "d1 = d\<lparr>order_table := order_table d @ [order]\<rparr>"
    using c by (auto simp: Order_objects_create_def Let_def)
  have oid: "o_id order = ?i" by (simp add: order)
  have t2: "order_table d2 = order_table d @ [order\<lparr>o_products := map p_id ps\<rparr>]"
    unfolding d2_def products_set_def d1 using map_fresh[OF fresh] oid by simp
  have p2: "product_table d2 = product_table d" "customer_table d2 = customer_table d"
    unfolding d2_def products_set_def d1 by simp_all
  have found2: "find (\<lambda>r. o_id r = o_id order) (order_table d2) = Some (order\<lparr>o_products := map p_id ps\<rparr>)"
    unfolding t2 oid using fresh by (intro find_fresh) (simp_all add: oid)
  have all2: "products_all d2 order = filter (\<lambda>p. p_id p \<in> set (map p_id ps)) (product_table d)"
    unfolding products_all_def found2 p2 by simp
  have o': "order' = order\<lparr>o_total_amount := sum_list (map p_price (products_all d2 order))\<rparr>"
    unfolding order'_def calculate_total_amount_def by (simp add: Let_def)
  have d3: "d3 = d2\<lparr>order_table :=
                    map (\<lambda>row. if o_id row = o_id order' then order'\<lparr>o_products := o_products row\<rparr> else row)
                      (order_table d2)\<rparr>"
    using s by (simp add: order_save_def split: if_splits)
  show id': "o_id order' = ?i" by (simp add: o' oid)
  show "o_customer order' = c_id customer" by (simp add: o' order)
  show "o_total_amount order' =
           sum_list (map p_price (filter (\<lambda>p. p_id p \<in> set (map p_id ps)) (product_table d)))"
    by (simp add: o' all2)
  show t3: "order_table d3 = order_table d @ [order'\<lparr>o_products := map p_id ps\<rparr>]"
    unfolding d3 id' t2 using map_fresh[OF fresh] oid by simp
  show p3: "product_table d3 = product_table d"
    unfolding d3 by (simp add: p2)
  show "customer_table d3 = customer_table d"
    unfolding d3 by (simp add: p2)
  have found3: "find (\<lambda>r. o_id r = o_id order') (order_table d3) = Some (order'\<lparr>o_products := map p_id ps\<rparr>)"
    unfolding t3 id' using fresh by (intro find_fresh) (simp_all add: id')
  show "products_all d3 order' = filter (\<lambda>p. p_id p \<in> set (map p_id ps)) (product_table d)"
    unfolding products_all_def found3 p3 by simp
qed

lemma those_ints_Some:
  "\<forall>s \<in> set ids. py_int s \<noteq> None \<Longrightarrow> those_ints ids = Some (map (\<lambda>s. the (py_int s)) ids)"
  by (simp add: those_ints_def list_all_iff)

lemma those_ints_None:
  "\<exists>s \<in> set ids. py_int s = None \<Longrightarrow> those_ints ids = None"
  by (auto simp: those_ints_def list_all_iff)

lemma distinct_map_int: "distinct (xs :: nat list) \<Longrightarrow> distinct (map int xs)"
  by (simp add: distinct_map)

lemma matched_count:
  assumes "distinct (map p_id table)"
  shows "length (filter (\<lambda>p. int (p_id p) \<in> K) table) = card (K \<inter> int ` p_id ` set table)"
proof -
  let ?ps = "filter (\<lambda>p. int (p_id p) \<in> K) table"
  have "distinct (map p_id ?ps)" using assms by (rule distinct_map_filter)
  then have "distinct (map int (map p_id ?ps))" by (rule distinct_map_int)
  then have "card (set (map int (map p_id ?ps))) = length ?ps"
    using distinct_card[of "map int (map p_id ?ps)"] by simp
  moreover have "set (map int (map p_id ?ps)) = K \<inter> int ` p_id ` set table" by auto
  ultimately show ?thesis by simp
qed

lemma matched_fewer_missing:
  assumes d: "distinct (map p_id table)" and k: "k \<in> set keys" "k \<notin> int ` p_id ` set table"
  shows "length (filter (\<lambda>p. int (p_id p) \<in> set keys) table) < length keys"
proof -
  have "set keys \<inter> int ` p_id ` set table \<subseteq> set keys - {k}" using k by auto
  then have "card (set keys \<inter> int ` p_id ` set table) \<le> card (set keys - {k})"
    by (intro card_mono) simp_all
  also have "\<dots> < card (set keys)" using k by (intro card_Diff1_less) simp_all
  also have "\<dots> \<le> length keys" by (rule card_length)
  finally show ?thesis by (simp add: matched_count[OF d])
qed

lemma matched_fewer_duplicates:
  assumes d: "distinct (map p_id table)" and dup: "\<not> distinct ids"
  shows "length (filter (\<lambda>p. int (p_id p) \<in> set (map f ids)) table) < length ids"
proof -
  have "card (set (map f ids) \<inter> int ` p_id ` set table) \<le> card (set (map f ids))"
    by (intro card_mono) simp_all
  also have "\<dots> \<le> card (set ids)" by (simp add: card_image_le)
  also have "\<dots> < length ids"
    using dup card_distinct[of ids] card_length[of ids] by (cases "card (set ids) = length ids") auto
  finally show ?thesis by (simp add: matched_count[OF d])
qed

lemma invalid_ids_set:
  assumes ints: "\<forall>s \<in> set ids. py_int s \<noteq> None"
  shows "set (invalid_ids ids (filter (\<lambda>p. int (p_id p) \<in> set (map (\<lambda>s. the (py_int s)) ids)) table)) =
         {s \<in> set ids. s \<notin> (\<lambda>p. str_nat (p_id p)) ` set table}"
proof -
  have "s \<in> (\<lambda>p. str_nat (p_id p)) ` set (filter (\<lambda>p. int (p_id p) \<in> set (map (\<lambda>s. the (py_int s)) ids)) table)
        \<longleftrightarrow> s \<in> (\<lambda>p. str_nat (p_id p)) ` set table" if s: "s \<in> set ids" for s
  proof
    assume "s \<in> (\<lambda>p. str_nat (p_id p)) ` set table"
    then obtain q where q: "q \<in> set table" "s = str_nat (p_id q)" by auto
    from ints s obtain k where k: "py_int s = Some k" by auto
    then have "k = int (p_id q)" using q(2) py_int_str_nat_Some by blast
    then have "the (py_int s) = int (p_id q)" using k by simp
    then have "int (p_id q) \<in> set (map (\<lambda>s. the (py_int s)) ids)" using s by force
    then show "s \<in> (\<lambda>p. str_nat (p_id p)) ` set (filter (\<lambda>p. int (p_id p) \<in> set (map (\<lambda>s. the (py_int s)) ids)) table)"
      using q by auto
  qed auto
  then show ?thesis by (auto simp: invalid_ids_def)
qed

lemma missing_not_rendered:
  assumes "py_int s \<noteq> None" and "the (py_int s) \<notin> int ` p_id ` set table"
  shows "s \<notin> (\<lambda>p. str_nat (p_id p)) ` set table"
proof
  assume "s \<in> (\<lambda>p. str_nat (p_id p)) ` set table"
  then obtain q where q: "q \<in> set table" "s = str_nat (p_id q)" by auto
  from assms(1) obtain k where k: "py_int s = Some k" by auto
  then have "k = int (p_id q)" using q(2) py_int_str_nat_Some by blast
  then show False using assms(2) k q(1) by simp
qed

lemma CreateOrder_found:
  assumes "py_int (oi_customer_id input) = Some cid" and "in_key_range cid"
    and "find (\<lambda>c. int (c_id c) = cid) (customer_table d) = Some customer"
    and "those_ints (oi_product_ids input) = Some keys" and "list_all in_key_range keys"
  shows "CreateOrder_mutate d now input =
     (let products = filter (\<lambda>p. int (p_id p) \<in> set keys) (product_table d);
          errs = (if oi_product_ids input = []
                  then [\<lparr>field = ''product_ids'', message = ''At least one product must be selected''\<rparr>]
                  else []) @
                 (if length products \<noteq> length (oi_product_ids input)
                  then [\<lparr>field = ''product_ids'',
                         message = invalid_ids_message (invalid_ids (oi_product_ids input) products)\<rparr>]
                  else [])
      in if errs \<noteq> [] then Inr (\<lparr>entity = None, info = ''Validation failed'', errors = Some errs\<rparr>, d)
         else case Order_objects_create d customer (case oi_order_date input of None \<Rightarrow> now | Some t \<Rightarrow> t) of
                (order, d1) \<Rightarrow>
                  (case order_save (products_set d1 order products)
                          (snd (calculate_total_amount (products_set d1 order products) order)) of
                     Inr d3 \<Rightarrow>
                       Inr (\<lparr>entity = Some (snd (calculate_total_amount (products_set d1 order products) order)),
                             info = order_created_message (o_total_amount
                                      (snd (calculate_total_amount (products_set d1 order products) order))),
                             errors = None\<rparr>, d3)
                   | Inl e \<Rightarrow>
                       Inr (\<lparr>entity = None, info = ''Failed to create order'',
                             errors = Some [\<lparr>field = ''general'', message = exn_str e\<rparr>]\<rparr>, d)))"
  by (simp add: CreateOrder_mutate_def assms Let_def)

lemma CreateOrder_no_customer:
  assumes "py_int (oi_customer_id input) = Some cid" and "in_key_range cid"
    and "find (\<lambda>c. int (c_id c) = cid) (customer_table d) = None"
  shows "CreateOrder_mutate d now input =
     Inr (\<lparr>entity = None, info = ''Validation failed'',
           errors = Some [\<lparr>field = ''customer_id'', message = ''Invalid customer ID''\<rparr>]\<rparr>, d)"
  by (simp add: CreateOrder_mutate_def assms)

lemma CreateOrder_bad_product_id:
  assumes "py_int (oi_customer_id input) = Some cid" and "in_key_range cid"
    and "find (\<lambda>c. int (c_id c) = cid) (customer_table d) = Some customer"
    and "those_ints (oi_product_ids input) = None"
  shows "CreateOrder_mutate d now input = Inl ValueError"
  by (simp add: CreateOrder_mutate_def assms)

lemma CreateOrder_Inr_cases:
  assumes "CreateOrder_mutate d now input = Inr r"
  obtains cid where "py_int (oi_customer_id input) = Some cid" "in_key_range cid"
      "find (\<lambda>c. int (c_id c) = cid) (customer_table d) = None"
  | cid customer keys where "py_int (oi_customer_id input) = Some cid" "in_key_range cid"
      "find (\<lambda>c. int (c_id c) = cid) (customer_table d) = Some customer"
      "those_ints (oi_product_ids input) = Some keys" "list_all in_key_range keys"
proof (cases "py_int (oi_customer_id input)")
  case None
  then show ?thesis using assms by (simp add: CreateOrder_mutate_def)
next
  case (Some cid)
  show ?thesis
  proof (cases "in_key_range cid")
    case False
    then show ?thesis using assms Some by (simp add: CreateOrder_mutate_def)
  next
    case range: True
    show ?thesis
    proof (cases "find (\<lambda>c. int (c_id c) = cid) (customer_table d)")
      case None
      then show ?thesis using Some range that(1) by blast
    next
      case cust: (Some customer)
      show ?thesis
      proof (cases "those_ints (oi_product_ids input)")
        case None
        then show ?thesis using assms Some range cust by (simp add: CreateOrder_mutate_def)
      next
        case keys: (Some keys)
        show ?thesis
        proof (cases "list_all in_key_range keys")
          case False
          then show ?thesis using assms Some range cust keys by (simp add: CreateOrder_mutate_def)
        next
          case True
          then show ?thesis using Some range cust keys that(2) by blast
        qed
      qed
    qed
  qed
qed

lemma those_ints_keys:
  "those_ints ids = Some keys \<Longrightarrow> keys = map (\<lambda>s. the (py_int s)) ids"
  by (simp add: those_ints_def split: if_splits)

lemma order_total_before_save:
  fixes ps :: "Product list"
  assumes c: "Order_objects_create d customer date = (order, d1)"
  shows "o_total_amount (snd (calculate_total_amount (products_set d1 order ps) order)) =
           sum_list (map p_price (filter (\<lambda>p. p_id p \<in> set (map p_id ps)) (product_table d)))"
proof -
  let ?i = "fresh_id (map o_id (order_table d))"
  let ?d2 = "products_set d1 order ps"
  have fresh: "?i \<notin> set (map o_id (order_table d))" by (rule fresh_id_notin)
  have order: "order = \<lparr>o_id = ?i, o_customer = c_id customer, o_products = [],
                         o_total_amount = 0, o_order_date = date\<rparr>"
    and d1: "d1 = d\<lparr>order_table := order_table d @ [order]\<rparr>"
    using c by (auto simp: Order_objects_create_def Let_def)
  have oid: "o_id order = ?i" by (simp add: order)
  have t2: "order_table ?d2 = order_table d @ [order\<lparr>o_products := map p_id ps\<rparr>]"
    unfolding products_set_def d1 using map_fresh[OF fresh] oid by simp
  have p2: "product_table ?d2 = product_table d"
    unfolding products_set_def d1 by simp
  have found2: "find (\<lambda>r. o_id r = o_id order) (order_table ?d2) = Some (order\<lparr>o_products := map p_id ps\<rparr>)"
    unfolding t2 oid using fresh by (intro find_fresh) (simp_all add: oid)
  have all2: "products_all ?d2 order = filter (\<lambda>p. p_id p \<in> set (map p_id ps)) (product_table d)"
    unfolding products_all_def found2 p2 by simp
  show ?thesis
    unfolding calculate_total_amount_def by (simp add: Let_def all2)
qed

lemma CreateOrder_succeeds:
  assumes cid: "py_int (oi_customer_id input) = Some cid" "in_key_range cid"
    and cust: "find (\<lambda>c. int (c_id c) = cid) (customer_table d) = Some customer"
    and keys: "those_ints (oi_product_ids input) = Some keys" "list_all in_key_range keys"
    and ne: "oi_product_ids input \<noteq> []"
    and len: "length (filter (\<lambda>p. int (p_id p) \<in> set keys) (product_table d)) = length (oi_product_ids input)"
    and fits: "decimal_fits (sum_list (map p_price (filter (\<lambda>p. int (p_id p) \<in> set keys) (product_table d))))"
  shows "\<exists>out d' order. CreateOrder_mutate d now input = Inr (out, d') \<and> entity out = Some order"
proof -
  let ?ps = "filter (\<lambda>p. int (p_id p) \<in> set keys) (product_table d)"
  let ?date = "case oi_order_date input of None \<Rightarrow> now | Some t \<Rightarrow> t"
  obtain order0 d1 where c: "Order_objects_create d customer ?date = (order0, d1)"
    by (cases "Order_objects_create d customer ?date") auto
  let ?d2 = "products_set d1 order0 ?ps"
  let ?o = "snd (calculate_total_amount ?d2 order0)"
  have same: "filter (\<lambda>p. p_id p \<in> set (map p_id ?ps)) (product_table d) = ?ps"
    by (rule filter_cong) auto
  have "o_total_amount ?o = sum_list (map p_price ?ps)"
    unfolding order_total_before_save[OF c] same ..
  then have "decimal_fits (o_total_amount ?o)" using fits by simp
  then obtain d3 where "order_save ?d2 ?o = Inr d3" by (simp add: order_save_def)
  then have "CreateOrder_mutate d now input =
      Inr (\<lparr>entity = Some ?o, info = order_created_message (o_total_amount ?o), errors = None\<rparr>, d3)"
    unfolding CreateOrder_found[OF cid cust keys] Let_def c using ne len by simp
  then show ?thesis by simp
qed

text \<open>
  C1: when \<open>CreateOrder\<close> returns an order, its \<open>total_amount\<close> is the exact sum of
  the prices of the products attached to it, which are the stored products that the id
  list refers to; the order row with that total is in the store when the mutation
  returns, and the success message reports it.
\<close>

theorem CreateOrder_total_amount:
  assumes run: "CreateOrder_mutate d now input = Inr (out, d')" and ent: "entity out = Some order"
  shows "o_total_amount order = sum_list (map p_price (products_all d' order)) \<and>
         products_all d' order =
           filter (\<lambda>p. int (p_id p) \<in> set (map (\<lambda>s. the (py_int s)) (oi_product_ids input))) (product_table d) \<and>
         (\<exists>row. order_table d' = order_table d @ [row] \<and> o_id row = o_id order \<and>
                o_total_amount row = o_total_amount order) \<and>
         product_table d' = product_table d \<and>
         info out = order_created_message (o_total_amount order)"
proof -
  from run show ?thesis
  proof (cases rule: CreateOrder_Inr_cases)
    case (1 cid)
    then show ?thesis using run ent by (auto simp: CreateOrder_no_customer)
  next
    case (2 cid customer keys)
    let ?ps = "filter (\<lambda>p. int (p_id p) \<in> set keys) (product_table d)"
    let ?date = "case oi_order_date input of None \<Rightarrow> now | Some t \<Rightarrow> t"
    obtain order0 d1 where c: "Order_objects_create d customer ?date = (order0, d1)"
      by (cases "Order_objects_create d customer ?date") auto
    let ?d2 = "products_set d1 order0 ?ps"
    let ?o = "snd (calculate_total_amount ?d2 order0)"
    have res: "out = \<lparr>entity = Some ?o, info = order_created_message (o_total_amount ?o), errors = None\<rparr>
               \<and> order_save ?d2 ?o = Inr d'"
      using run ent unfolding CreateOrder_found[OF 2] Let_def c
      by (auto split: if_splits sum.splits)
    then have o: "order = ?o" and d': "order_save ?d2 ?o = Inr d'"
      and inf: "info out = order_created_message (o_total_amount ?o)"
      using ent by auto
    have same: "filter (\<lambda>p. p_id p \<in> set (map p_id ?ps)) (product_table d) = ?ps"
      by (rule filter_cong) auto
    note pl = order_pipeline[OF c d']
    have "o_total_amount order = sum_list (map p_price (products_all d' order))"
      unfolding o pl(6) pl(7) ..
    moreover have "products_all d' order = ?ps"
      unfolding o pl(7) same ..
    moreover have "order_table d' = order_table d @ [?o\<lparr>o_products := map p_id ?ps\<rparr>]"
      by (rule pl(1))
    moreover have "product_table d' = product_table d"
      by (rule pl(2))
    ultimately show ?thesis
      using those_ints_keys[OF 2(4)] o inf by simp
  qed
qed

lemma CreateOrder_mismatch:
  assumes cid: "py_int (oi_customer_id input) = Some cid" "in_key_range cid"
    and cust: "find (\<lambda>c. int (c_id c) = cid) (customer_table d) = Some customer"
    and ints: "\<forall>s \<in> set (oi_product_ids input). py_int s \<noteq> None"
    and range: "\<forall>s \<in> set (oi_product_ids input). in_key_range (the (py_int s))"
    and ne: "oi_product_ids input \<noteq> []"
    and fewer: "length (filter (\<lambda>p. int (p_id p) \<in> set (map (\<lambda>s. the (py_int s)) (oi_product_ids input)))
                  (product_table d)) < length (oi_product_ids input)"
  shows "\<exists>bad. CreateOrder_mutate d now input =
           Inr (\<lparr>entity = None, info = ''Validation failed'',
                 errors = Some [\<lparr>field = ''product_ids'', message = invalid_ids_message bad\<rparr>]\<rparr>, d) \<and>
           set bad = {s \<in> set (oi_product_ids input). s \<notin> (\<lambda>p. str_nat (p_id p)) ` set (product_table d)} \<and>
           distinct bad"
proof -
  let ?keys = "map (\<lambda>s. the (py_int s)) (oi_product_ids input)"
  let ?ps = "filter (\<lambda>p. int (p_id p) \<in> set ?keys) (product_table d)"
  have keys: "those_ints (oi_product_ids input) = Some ?keys"
    using ints by (rule those_ints_Some)
  have inr: "list_all in_key_range ?keys"
    using range by (simp add: list_all_iff)
  have "CreateOrder_mutate d now input =
           Inr (\<lparr>entity = None, info = ''Validation failed'',
                 errors = Some [\<lparr>field = ''product_ids'',
                   message = invalid_ids_message (invalid_ids (oi_product_ids input) ?ps)\<rparr>]\<rparr>, d)"
    unfolding CreateOrder_found[OF cid cust keys inr] Let_def using ne fewer by simp
  moreover have "set (invalid_ids (oi_product_ids input) ?ps) =
      {s \<in> set (oi_product_ids input). s \<notin> (\<lambda>p. str_nat (p_id p)) ` set (product_table d)}"
    using ints by (rule invalid_ids_set)
  moreover have "distinct (invalid_ids (oi_product_ids input) ?ps)"
    by (simp add: invalid_ids_def)
  ultimately show ?thesis by blast
qed

lemma nonexistent_ids:
  assumes ints: "\<forall>s \<in> set ids. py_int s \<noteq> None"
    and plain: "\<forall>s \<in> set ids. \<forall>p \<in> set table. py_int s = Some (int (p_id p)) \<longrightarrow> s = str_nat (p_id p)"
  shows "{s \<in> set ids. s \<notin> (\<lambda>p. str_nat (p_id p)) ` set table} =
         {s \<in> set ids. the (py_int s) \<notin> int ` p_id ` set table}"
proof (intro equalityI subsetI)
  fix s assume "s \<in> {s \<in> set ids. s \<notin> (\<lambda>p. str_nat (p_id p)) ` set table}"
  then have s: "s \<in> set ids" and nr: "s \<notin> (\<lambda>p. str_nat (p_id p)) ` set table" by auto
  from ints s obtain k where k: "py_int s = Some k" by auto
  have "k \<notin> int ` p_id ` set table"
  proof
    assume "k \<in> int ` p_id ` set table"
    then obtain p where p: "p \<in> set table" "k = int (p_id p)" by auto
    then have "s = str_nat (p_id p)" using plain s k by blast
    then show False using nr p(1) by blast
  qed
  then show "s \<in> {s \<in> set ids. the (py_int s) \<notin> int ` p_id ` set table}"
    using s k by simp
next
  fix s assume "s \<in> {s \<in> set ids. the (py_int s) \<notin> int ` p_id ` set table}"
  then have s: "s \<in> set ids" and m: "the (py_int s) \<notin> int ` p_id ` set table" by auto
  from ints s have "py_int s \<noteq> None" by blast
  from missing_not_rendered[OF this m] s
  show "s \<in> {s \<in> set ids. s \<notin> (\<lambda>p. str_nat (p_id p)) ` set table}" by simp
qed

text \<open>
  C5, amended: for a customer id that is the literal of an integer in the range of the
  key column, an id of no customer returns only the \<open>customer_id\<close> error; for an
  existing customer, an empty product list returns only the empty-list error; and a
  product list of such literals, in which every id of an existing product is written
  as the key in plain decimal and at least one id is the key of no product, returns
  one \<open>product_ids\<close> error, a null order and an unchanged store. That error itemizes
  exactly the ids of no product, each once.
\<close>

theorem CreateOrder_invalid_products:
  "(py_int (oi_customer_id input) = Some cid \<and> in_key_range cid \<and>
    find (\<lambda>c. int (c_id c) = cid) (customer_table d) = None \<longrightarrow>
      CreateOrder_mutate d now input =
        Inr (\<lparr>entity = None, info = ''Validation failed'',
              errors = Some [\<lparr>field = ''customer_id'', message = ''Invalid customer ID''\<rparr>]\<rparr>, d)) \<and>
   (py_int (oi_customer_id input) = Some cid \<and> in_key_range cid \<and>
    find (\<lambda>c. int (c_id c) = cid) (customer_table d) = Some customer \<and>
    oi_product_ids input = [] \<longrightarrow>
      CreateOrder_mutate d now input =
        Inr (\<lparr>entity = None, info = ''Validation failed'',
              errors = Some [\<lparr>field = ''product_ids'',
                              message = ''At least one product must be selected''\<rparr>]\<rparr>, d)) \<and>
   (py_int (oi_customer_id input) = Some cid \<and> in_key_range cid \<and>
    find (\<lambda>c. int (c_id c) = cid) (customer_table d) = Some customer \<and>
    distinct (map p_id (product_table d)) \<and>
    (\<forall>s \<in> set (oi_product_ids input). py_int s \<noteq> None \<and> in_key_range (the (py_int s))) \<and>
    (\<forall>s \<in> set (oi_product_ids input). \<forall>p \<in> set (product_table d).
        py_int s = Some (int (p_id p)) \<longrightarrow> s = str_nat (p_id p)) \<and>
    (\<exists>s \<in> set (oi_product_ids input). the (py_int s) \<notin> int ` p_id ` set (product_table d)) \<longrightarrow>
      (\<exists>bad. CreateOrder_mutate d now input =
           Inr (\<lparr>entity = None, info = ''Validation failed'',
                 errors = Some [\<lparr>field = ''product_ids'', message = invalid_ids_message bad\<rparr>]\<rparr>, d) \<and>
         set bad = {s \<in> set (oi_product_ids input). the (py_int s) \<notin> int ` p_id ` set (product_table d)} \<and>
         distinct bad))"
proof (intro conjI impI)
  assume "py_int (oi_customer_id input) = Some cid \<and> in_key_range cid \<and>
    find (\<lambda>c. int (c_id c) = cid) (customer_table d) = None"
  then show "CreateOrder_mutate d now input =
        Inr (\<lparr>entity = None, info = ''Validation failed'',
              errors = Some [\<lparr>field = ''customer_id'', message = ''Invalid customer ID''\<rparr>]\<rparr>, d)"
    by (simp add: CreateOrder_no_customer)
next
  assume a: "py_int (oi_customer_id input) = Some cid \<and> in_key_range cid \<and>
    find (\<lambda>c. int (c_id c) = cid) (customer_table d) = Some customer \<and>
    oi_product_ids input = []"
  then have keys: "those_ints (oi_product_ids input) = Some []" by (simp add: those_ints_def)
  have inr: "list_all in_key_range []" by simp
  from a have cid: "py_int (oi_customer_id input) = Some cid" "in_key_range cid"
    and cust: "find (\<lambda>c. int (c_id c) = cid) (customer_table d) = Some customer" by simp_all
  show "CreateOrder_mutate d now input =
        Inr (\<lparr>entity = None, info = ''Validation failed'',
              errors = Some [\<lparr>field = ''product_ids'',
                              message = ''At least one product must be selected''\<rparr>]\<rparr>, d)"
    unfolding CreateOrder_found[OF cid cust keys inr] Let_def using a by simp
next
  assume a: "py_int (oi_customer_id input) = Some cid \<and> in_key_range cid \<and>
    find (\<lambda>c. int (c_id c) = cid) (customer_table d) = Some customer \<and>
    distinct (map p_id (product_table d)) \<and>
    (\<forall>s \<in> set (oi_product_ids input). py_int s \<noteq> None \<and> in_key_range (the (py_int s))) \<and>
    (\<forall>s \<in> set (oi_product_ids input). \<forall>p \<in> set (product_table d).
        py_int s = Some (int (p_id p)) \<longrightarrow> s = str_nat (p_id p)) \<and>
    (\<exists>s \<in> set (oi_product_ids input). the (py_int s) \<notin> int ` p_id ` set (product_table d))"
  then obtain s where s: "s \<in> set (oi_product_ids input)"
      "the (py_int s) \<notin> int ` p_id ` set (product_table d)" by blast
  from a have cid: "py_int (oi_customer_id input) = Some cid" "in_key_range cid"
    and cust: "find (\<lambda>c. int (c_id c) = cid) (customer_table d) = Some customer"
    and wf: "distinct (map p_id (product_table d))"
    and ints: "\<forall>s \<in> set (oi_product_ids input). py_int s \<noteq> None"
    and range: "\<forall>s \<in> set (oi_product_ids input). in_key_range (the (py_int s))"
    and plain: "\<forall>s \<in> set (oi_product_ids input). \<forall>p \<in> set (product_table d).
        py_int s = Some (int (p_id p)) \<longrightarrow> s = str_nat (p_id p)" by simp_all
  have ne: "oi_product_ids input \<noteq> []" using s by auto
  have "the (py_int s) \<in> set (map (\<lambda>s. the (py_int s)) (oi_product_ids input))" using s by simp
  from matched_fewer_missing[OF wf this s(2)]
  have fewer: "length (filter (\<lambda>p. int (p_id p) \<in> set (map (\<lambda>s. the (py_int s)) (oi_product_ids input)))
                  (product_table d)) < length (oi_product_ids input)" by simp
  from CreateOrder_mismatch[OF cid cust ints range ne fewer, of now]
  obtain bad where bad: "CreateOrder_mutate d now input =
           Inr (\<lparr>entity = None, info = ''Validation failed'',
                 errors = Some [\<lparr>field = ''product_ids'', message = invalid_ids_message bad\<rparr>]\<rparr>, d)"
     "set bad = {s \<in> set (oi_product_ids input). s \<notin> (\<lambda>p. str_nat (p_id p)) ` set (product_table d)}"
     "distinct bad"
    by blast
  have "set bad = {s \<in> set (oi_product_ids input). the (py_int s) \<notin> int ` p_id ` set (product_table d)}"
    unfolding bad(2) using ints plain by (rule nonexistent_ids)
  with bad show "\<exists>bad. CreateOrder_mutate d now input =
           Inr (\<lparr>entity = None, info = ''Validation failed'',
                 errors = Some [\<lparr>field = ''product_ids'', message = invalid_ids_message bad\<rparr>]\<rparr>, d) \<and>
         set bad = {s \<in> set (oi_product_ids input). the (py_int s) \<notin> int ` p_id ` set (product_table d)} \<and>
         distinct bad"
    by blast
qed

lemma py_int_examples:
  "py_int ''1'' = Some 1" "py_int ''2'' = Some 2" "py_int ''999'' = Some 999"
  "py_int ''01'' = Some 1" "py_int ''abc'' = None" "py_int ''7'' = Some 7"
  by (simp_all add: py_int_def strip_def int_isspace_def py_isdigit_def digit_value_def
        int_max_str_digits_def Let_def)

lemma key_range_examples:
  "in_key_range 1" "in_key_range 2" "in_key_range 7" "in_key_range 999"
  by (simp_all add: in_key_range_def)

lemma str_nat_examples:
  "str_nat 1 = ''1''" "str_nat 2 = ''2''" "str_nat 3 = ''3''" "str_nat (Suc 0) = ''1''"
  by code_simp+

lemma find_alice:
  "find (\<lambda>c. int (c_id c) = 1) (customer_table seed_db) = Some (hd seed_customers)"
  by (simp add: seed_db_def seed_customers_def)

lemma find_nobody:
  "find (\<lambda>c. int (c_id c) = 7) (customer_table seed_db) = None"
  by (simp add: seed_db_def seed_customers_def)

lemma seed_ids: "distinct (map p_id (product_table seed_db))"
  by (simp add: seed_db_def seed_products_def)

lemma seed_keys: "int ` p_id ` set (product_table seed_db) = {1, 2, 3}"
  by (simp add: seed_db_def seed_products_def)

lemma singleton_list:
  assumes "set xs = {a}" and "distinct xs"
  shows "xs = [a]"
proof -
  have "length xs = card (set xs)" using assms(2) by (simp add: distinct_card)
  then have "length xs = 1" using assms(1) by simp
  then obtain x where "xs = [x]" by (cases xs) auto
  then show ?thesis using assms(1) by simp
qed

text \<open>
  C1 on the seed data: the laptop at 999.99 and the mouse at 25.50 give 1025.49.
\<close>

theorem CreateOrder_total_amount_witness:
  "\<exists>out d' order.
     CreateOrder_mutate seed_db 0
       \<lparr>oi_customer_id = ''1'', oi_product_ids = [''1'', ''2''], oi_order_date = None\<rparr> = Inr (out, d') \<and>
     entity out = Some order \<and>
     map p_price (products_all d' order) = [99999 / 100, 2550 / 100] \<and>
     o_total_amount order = 102549 / 100 \<and>
     (\<exists>row \<in> set (order_table d'). o_id row = o_id order \<and> o_total_amount row = 102549 / 100)"
proof -
  let ?input = "\<lparr>oi_customer_id = ''1'', oi_product_ids = [''1'', ''2''], oi_order_date = None\<rparr>"
  have keys: "those_ints (oi_product_ids ?input) = Some [1, 2]"
    by (simp add: those_ints_def py_int_examples)
  have inr: "list_all in_key_range [1, 2]" by (simp add: key_range_examples)
  have cid: "py_int (oi_customer_id ?input) = Some 1" by (simp add: py_int_examples)
  have "\<exists>out d' order. CreateOrder_mutate seed_db 0 ?input = Inr (out, d') \<and> entity out = Some order"
  proof (rule CreateOrder_succeeds[OF cid key_range_examples(1) find_alice keys inr])
    show "oi_product_ids ?input \<noteq> []" by simp
    show "length (filter (\<lambda>p. int (p_id p) \<in> set [1, 2]) (product_table seed_db)) =
          length (oi_product_ids ?input)"
      by (simp add: seed_db_def seed_products_def)
    show "decimal_fits (sum_list (map p_price (filter (\<lambda>p. int (p_id p) \<in> set [1, 2]) (product_table seed_db))))"
      by (simp add: seed_db_def seed_products_def decimal_fits_def round_half_even_def Let_def)
  qed
  then obtain out d' order where run: "CreateOrder_mutate seed_db 0 ?input = Inr (out, d')"
    and ent: "entity out = Some order" by blast
  note t = CreateOrder_total_amount[OF run ent]
  have ps: "map p_price (products_all d' order) = [99999 / 100, 2550 / 100]"
    using t by (simp add: py_int_examples seed_db_def seed_products_def)
  have tot: "o_total_amount order = 102549 / 100"
    using t ps by simp
  have row: "\<exists>row \<in> set (order_table d'). o_id row = o_id order \<and> o_total_amount row = 102549 / 100"
    using t tot by auto
  show ?thesis
    by (intro exI[of _ out] exI[of _ d'] exI[of _ order] conjI) (rule run ent ps tot row)+
qed

text \<open>
  C5 as stated: every list with an id of no product yields the \<open>product_ids\<close> error.
  The id \<open>abc\<close> is the id of no product, and the conversion of the ids raises
  \<open>ValueError\<close> before any error is collected.
\<close>

theorem CreateOrder_non_numeric_id_counterexample:
  "CreateOrder_mutate seed_db 0
     \<lparr>oi_customer_id = ''1'', oi_product_ids = [''1'', ''2'', ''abc''], oi_order_date = None\<rparr> =
   Inl ValueError"
proof -
  have "those_ints [''1'', ''2'', ''abc''] = None"
    by (simp add: those_ints_def py_int_examples)
  then show ?thesis
    using find_alice key_range_examples(1)
    by (intro CreateOrder_bad_product_id[where cid = 1]) (simp_all add: py_int_examples)
qed

text \<open>
  C5 on the seed data: customer 7 does not exist; an empty list is refused; the ids 1,
  2 and 999 itemize 999.
\<close>

theorem CreateOrder_invalid_products_witness:
  "CreateOrder_mutate seed_db 0
     \<lparr>oi_customer_id = ''7'', oi_product_ids = [''1'', ''2'', ''999''], oi_order_date = None\<rparr> =
     Inr (\<lparr>entity = None, info = ''Validation failed'',
           errors = Some [\<lparr>field = ''customer_id'', message = ''Invalid customer ID''\<rparr>]\<rparr>, seed_db) \<and>
   CreateOrder_mutate seed_db 0
     \<lparr>oi_customer_id = ''1'', oi_product_ids = [], oi_order_date = None\<rparr> =
     Inr (\<lparr>entity = None, info = ''Validation failed'',
           errors = Some [\<lparr>field = ''product_ids'',
                           message = ''At least one product must be selected''\<rparr>]\<rparr>, seed_db) \<and>
   CreateOrder_mutate seed_db 0
     \<lparr>oi_customer_id = ''1'', oi_product_ids = [''1'', ''2'', ''999''], oi_order_date = None\<rparr> =
     Inr (\<lparr>entity = None, info = ''Validation failed'',
           errors = Some [\<lparr>field = ''product_ids'', message = ''Invalid product IDs: 999''\<rparr>]\<rparr>, seed_db)"
proof (intro conjI)
  let ?i1 = "\<lparr>oi_customer_id = ''7'', oi_product_ids = [''1'', ''2'', ''999''], oi_order_date = None\<rparr>"
  let ?i2 = "\<lparr>oi_customer_id = ''1'', oi_product_ids = [], oi_order_date = None\<rparr>"
  let ?i3 = "\<lparr>oi_customer_id = ''1'', oi_product_ids = [''1'', ''2'', ''999''], oi_order_date = None\<rparr>"
  have h1: "py_int (oi_customer_id ?i1) = Some 7 \<and> in_key_range 7 \<and>
    find (\<lambda>c. int (c_id c) = 7) (customer_table seed_db) = None"
    using find_nobody by (simp add: py_int_examples key_range_examples)
  from CreateOrder_invalid_products[of ?i1 7 seed_db 0, THEN conjunct1, THEN mp, OF h1]
  show "CreateOrder_mutate seed_db 0 ?i1 =
     Inr (\<lparr>entity = None, info = ''Validation failed'',
           errors = Some [\<lparr>field = ''customer_id'', message = ''Invalid customer ID''\<rparr>]\<rparr>, seed_db)"
    .
  have h2: "py_int (oi_customer_id ?i2) = Some 1 \<and> in_key_range 1 \<and>
    find (\<lambda>c. int (c_id c) = 1) (customer_table seed_db) = Some (hd seed_customers) \<and>
    oi_product_ids ?i2 = []"
    using find_alice by (simp add: py_int_examples key_range_examples)
  from CreateOrder_invalid_products[of ?i2 1 seed_db 0 "hd seed_customers",
      THEN conjunct2, THEN conjunct1, THEN mp, OF h2]
  show "CreateOrder_mutate seed_db 0 ?i2 =
     Inr (\<lparr>entity = None, info = ''Validation failed'',
           errors = Some [\<lparr>field = ''product_ids'',
                           message = ''At least one product must be selected''\<rparr>]\<rparr>, seed_db)"
    .
  have sel: "{s \<in> set (oi_product_ids ?i3). the (py_int s) \<notin> int ` p_id ` set (product_table seed_db)} = {''999''}"
    unfolding seed_keys by (auto simp: py_int_examples)
  have h3: "py_int (oi_customer_id ?i3) = Some 1 \<and> in_key_range 1 \<and>
    find (\<lambda>c. int (c_id c) = 1) (customer_table seed_db) = Some (hd seed_customers) \<and>
    distinct (map p_id (product_table seed_db)) \<and>
    (\<forall>s \<in> set (oi_product_ids ?i3). py_int s \<noteq> None \<and> in_key_range (the (py_int s))) \<and>
    (\<forall>s \<in> set (oi_product_ids ?i3). \<forall>p \<in> set (product_table seed_db).
        py_int s = Some (int (p_id p)) \<longrightarrow> s = str_nat (p_id p)) \<and>
    (\<exists>s \<in> set (oi_product_ids ?i3). the (py_int s) \<notin> int ` p_id ` set (product_table seed_db))"
  proof (intro conjI)
    show "py_int (oi_customer_id ?i3) = Some 1" by (simp add: py_int_examples)
    show "in_key_range 1" by (rule key_range_examples)
    show "find (\<lambda>c. int (c_id c) = 1) (customer_table seed_db) = Some (hd seed_customers)"
      by (rule find_alice)
    show "distinct (map p_id (product_table seed_db))" by (rule seed_ids)
    show "\<forall>s \<in> set (oi_product_ids ?i3). py_int s \<noteq> None \<and> in_key_range (the (py_int s))"
      by (simp add: py_int_examples key_range_examples)
    show "\<forall>s \<in> set (oi_product_ids ?i3). \<forall>p \<in> set (product_table seed_db).
        py_int s = Some (int (p_id p)) \<longrightarrow> s = str_nat (p_id p)"
      by (simp add: py_int_examples seed_db_def seed_products_def str_nat_examples)
    show "\<exists>s \<in> set (oi_product_ids ?i3). the (py_int s) \<notin> int ` p_id ` set (product_table seed_db)"
      unfolding seed_keys by (simp add: py_int_examples)
  qed
  from CreateOrder_invalid_products[of ?i3 1 seed_db 0 "hd seed_customers",
      THEN conjunct2, THEN conjunct2, THEN mp, OF h3]
  obtain bad where bad: "CreateOrder_mutate seed_db 0 ?i3 =
       Inr (\<lparr>entity = None, info = ''Validation failed'',
             errors = Some [\<lparr>field = ''product_ids'', message = invalid_ids_message bad\<rparr>]\<rparr>, seed_db)"
     "set bad = {s \<in> set (oi_product_ids ?i3). the (py_int s) \<notin> int ` p_id ` set (product_table seed_db)}"
     "distinct bad"
    by (elim exE conjE)
  from bad(2) have "set bad = {''999''}" unfolding sel .
  then have "bad = [''999'']" using bad(3) by (rule singleton_list)
  then show "CreateOrder_mutate seed_db 0 ?i3 =
     Inr (\<lparr>entity = None, info = ''Validation failed'',
           errors = Some [\<lparr>field = ''product_ids'', message = ''Invalid product IDs: 999''\<rparr>]\<rparr>, seed_db)"
    using bad(1) by (simp add: invalid_ids_message_def)
qed

text \<open>
  C9 at the ids \<open>01\<close>, \<open>01\<close>: the id refers to product 1, which exists, and is given
  twice. The mutation rejects the list and itemizes \<open>01\<close> as invalid, because the lookup
  converts the id with \<open>int\<close> and the itemization compares it with \<open>str(p.id)\<close>.
\<close>

theorem CreateOrder_respelled_duplicate_itemized:
  "py_int ''01'' = Some (int (p_id (hd (product_table seed_db)))) \<and>
   CreateOrder_mutate seed_db 0
     \<lparr>oi_customer_id = ''1'', oi_product_ids = [''01'', ''01''], oi_order_date = None\<rparr> =
   Inr (\<lparr>entity = None, info = ''Validation failed'',
         errors = Some [\<lparr>field = ''product_ids'', message = ''Invalid product IDs: 01''\<rparr>]\<rparr>, seed_db)"
proof -
  let ?i = "\<lparr>oi_customer_id = ''1'', oi_product_ids = [''01'', ''01''], oi_order_date = None\<rparr>"
  have cid: "py_int (oi_customer_id ?i) = Some 1" by (simp add: py_int_examples)
  have keys: "those_ints (oi_product_ids ?i) = Some [1, 1]"
    by (simp add: those_ints_def py_int_examples)
  have inr: "list_all in_key_range [1, 1]" by (simp add: key_range_examples)
  have "CreateOrder_mutate seed_db 0 ?i =
   Inr (\<lparr>entity = None, info = ''Validation failed'',
         errors = Some [\<lparr>field = ''product_ids'', message = ''Invalid product IDs: 01''\<rparr>]\<rparr>, seed_db)"
    unfolding CreateOrder_found[OF cid key_range_examples(1) find_alice keys inr]
    by (simp add: Let_def seed_db_def seed_products_def invalid_ids_def invalid_ids_message_def
          str_nat_examples)
  moreover have "py_int ''01'' = Some (int (p_id (hd (product_table seed_db))))"
    by (simp add: py_int_examples seed_db_def seed_products_def)
  ultimately show ?thesis by simp
qed

section \<open>Filtered queries\<close>

lemma rows_when_set:
  "qs_rows (when_set b P qs) = (if b then filter P (qs_rows qs) else qs_rows qs)"
  by (simp add: when_set_def qs_filter_def)

lemma rows_objects_all: "qs_rows (objects_all table) = table"
  by (simp add: objects_all_def)

lemma order_by_opt_rows: "order_by_opt ok ob qs = Inr res \<Longrightarrow> qs_rows res = qs_rows qs"
  by (auto simp: order_by_opt_def split: if_splits)

lemma order_by_opt_None: "order_by_opt ok None qs = Inr qs"
  by (simp add: order_by_opt_def truthy_def)

lemma when_set_False: "when_set False P qs = qs"
  by (simp add: when_set_def)

text \<open>
  The rows that \<open>resolve_products\<close> selects: the products that meet every criterion
  whose value is truthy.
\<close>

lemma resolve_products_rows:
  assumes "resolve_products ok d (Some f) ob = Inr res"
  shows "qs_rows res =
     filter (\<lambda>p. (truthy (pf_name_icontains f) \<longrightarrow> icontains (the (pf_name_icontains f)) (p_name p)) \<and>
                 (truthy_num (pf_price_gte f) \<longrightarrow> the (pf_price_gte f) \<le> p_price p) \<and>
                 (truthy_num (pf_price_lte f) \<longrightarrow> p_price p \<le> the (pf_price_lte f)) \<and>
                 (truthy_num (pf_stock_gte f) \<longrightarrow> the (pf_stock_gte f) \<le> p_stock p) \<and>
                 (truthy_num (pf_stock_lte f) \<longrightarrow> p_stock p \<le> the (pf_stock_lte f)) \<and>
                 (truthy_bool (pf_low_stock f) \<longrightarrow> p_stock p < 10))
            (product_table d)"
proof -
  from assms have "qs_rows res = qs_rows
     (when_set (truthy_bool (pf_low_stock f)) (\<lambda>p. p_stock p < 10)
       (when_set (truthy_num (pf_stock_lte f)) (\<lambda>p. p_stock p \<le> the (pf_stock_lte f))
         (when_set (truthy_num (pf_stock_gte f)) (\<lambda>p. the (pf_stock_gte f) \<le> p_stock p)
           (when_set (truthy_num (pf_price_lte f)) (\<lambda>p. p_price p \<le> the (pf_price_lte f))
             (when_set (truthy_num (pf_price_gte f)) (\<lambda>p. the (pf_price_gte f) \<le> p_price p)
               (when_set (truthy (pf_name_icontains f))
                  (\<lambda>p. icontains (the (pf_name_icontains f)) (p_name p))
                  (objects_all (product_table d))))))))"
    unfolding resolve_products_def Let_def option.case by (rule order_by_opt_rows)
  then show ?thesis
    unfolding rows_when_set rows_objects_all by (auto intro!: filter_cong)
qed

text \<open>
  C7: the low-stock filter returns exactly the products whose stock is below 10, in the
  method \<open>filter_low_stock\<close> and in \<open>resolve_products\<close>; a product with a stock of 10
  is never among them.
\<close>

theorem low_stock_below_ten:
  "qs_rows (filter_low_stock qs name True) = filter (\<lambda>p. p_stock p < 10) (qs_rows qs) \<and>
   (\<exists>res. resolve_products ok d
       (Some \<lparr>pf_name_icontains = None, pf_price_gte = None, pf_price_lte = None,
              pf_stock_gte = None, pf_stock_lte = None, pf_low_stock = Some True\<rparr>) None = Inr res \<and>
      qs_rows res = filter (\<lambda>p. p_stock p < 10) (product_table d)) \<and>
   (resolve_products ok d (Some f) ob = Inr res' \<and> pf_low_stock f = Some True \<longrightarrow>
      set (qs_rows res') \<subseteq> {p \<in> set (product_table d). p_stock p < 10}) \<and>
   (\<forall>p. p_stock p = 10 \<longrightarrow>
      p \<notin> set (qs_rows (filter_low_stock qs name True)) \<and>
      (resolve_products ok d (Some f) ob = Inr res' \<and> pf_low_stock f = Some True \<longrightarrow>
         p \<notin> set (qs_rows res')))"
proof (intro conjI)
  let ?low = "\<lparr>pf_name_icontains = None, pf_price_gte = None, pf_price_lte = None,
              pf_stock_gte = None, pf_stock_lte = None, pf_low_stock = Some True\<rparr>"
  show "qs_rows (filter_low_stock qs name True) = filter (\<lambda>p. p_stock p < 10) (qs_rows qs)"
    by (simp add: filter_low_stock_def qs_filter_def)
  have run: "resolve_products ok d (Some ?low) None =
       Inr (when_set True (\<lambda>p. p_stock p < 10) (objects_all (product_table d)))"
    by (simp add: resolve_products_def Let_def order_by_opt_None truthy_def truthy_num_def
          truthy_bool_def when_set_False)
  show "\<exists>res. resolve_products ok d (Some ?low) None = Inr res \<and>
      qs_rows res = filter (\<lambda>p. p_stock p < 10) (product_table d)"
    unfolding run by (simp add: rows_when_set rows_objects_all)
  show sub: "resolve_products ok d (Some f) ob = Inr res' \<and> pf_low_stock f = Some True \<longrightarrow>
      set (qs_rows res') \<subseteq> {p \<in> set (product_table d). p_stock p < 10}"
  proof
    assume a: "resolve_products ok d (Some f) ob = Inr res' \<and> pf_low_stock f = Some True"
    then have "truthy_bool (pf_low_stock f)" by (simp add: truthy_bool_def)
    then show "set (qs_rows res') \<subseteq> {p \<in> set (product_table d). p_stock p < 10}"
      using a by (auto simp: resolve_products_rows)
  qed
  show "\<forall>p. p_stock p = 10 \<longrightarrow>
      p \<notin> set (qs_rows (filter_low_stock qs name True)) \<and>
      (resolve_products ok d (Some f) ob = Inr res' \<and> pf_low_stock f = Some True \<longrightarrow>
         p \<notin> set (qs_rows res'))"
    using sub by (auto simp: filter_low_stock_def qs_filter_def)
qed

text \<open>
  C7 on the seed data: of the stocks 10, 50 and 8 the filter keeps the desk chair with
  8 and drops the laptop with 10.
\<close>

theorem low_stock_below_ten_witness:
  "p_stock (hd (product_table seed_db)) = 10 \<and>
   hd (product_table seed_db) \<notin> set (qs_rows (filter_low_stock (objects_all (product_table seed_db)) ''low_stock'' True)) \<and>
   map p_name (qs_rows (filter_low_stock (objects_all (product_table seed_db)) ''low_stock'' True)) = [''Desk Chair'']"
proof -
  have s: "p_stock (hd (product_table seed_db)) = 10"
    by (simp add: seed_db_def seed_products_def)
  from low_stock_below_ten[of "objects_all (product_table seed_db)" "''low_stock''"]
  have rows: "qs_rows (filter_low_stock (objects_all (product_table seed_db)) ''low_stock'' True) =
      filter (\<lambda>p. p_stock p < 10) (qs_rows (objects_all (product_table seed_db)))"
    and never: "\<forall>p. p_stock p = 10 \<longrightarrow>
      p \<notin> set (qs_rows (filter_low_stock (objects_all (product_table seed_db)) ''low_stock'' True))"
    by blast+
  from never s have "hd (product_table seed_db) \<notin>
      set (qs_rows (filter_low_stock (objects_all (product_table seed_db)) ''low_stock'' True))"
    by blast
  moreover have "map p_name (qs_rows (filter_low_stock (objects_all (product_table seed_db)) ''low_stock'' True)) =
      [''Desk Chair'']"
    unfolding rows by (simp add: rows_objects_all seed_db_def seed_products_def)
  ultimately show ?thesis using s by simp
qed

lemma products_falsy:
  "resolve_products ok d (Some (f\<lparr>pf_name_icontains := Some []\<rparr>)) ob =
     resolve_products ok d (Some (f\<lparr>pf_name_icontains := None\<rparr>)) ob"
  "resolve_products ok d (Some (f\<lparr>pf_price_gte := Some 0\<rparr>)) ob =
     resolve_products ok d (Some (f\<lparr>pf_price_gte := None\<rparr>)) ob"
  "resolve_products ok d (Some (f\<lparr>pf_price_lte := Some 0\<rparr>)) ob =
     resolve_products ok d (Some (f\<lparr>pf_price_lte := None\<rparr>)) ob"
  "resolve_products ok d (Some (f\<lparr>pf_stock_gte := Some 0\<rparr>)) ob =
     resolve_products ok d (Some (f\<lparr>pf_stock_gte := None\<rparr>)) ob"
  "resolve_products ok d (Some (f\<lparr>pf_stock_lte := Some 0\<rparr>)) ob =
     resolve_products ok d (Some (f\<lparr>pf_stock_lte := None\<rparr>)) ob"
  "resolve_products ok d (Some (f\<lparr>pf_low_stock := Some False\<rparr>)) ob =
     resolve_products ok d (Some (f\<lparr>pf_low_stock := None\<rparr>)) ob"
  by (simp_all add: resolve_products_def truthy_def truthy_num_def truthy_bool_def when_set_def)

lemma filtered_products_falsy:
  "resolve_filtered_products ok d (Some (f\<lparr>pf_name_icontains := Some []\<rparr>)) ob =
     resolve_filtered_products ok d (Some (f\<lparr>pf_name_icontains := None\<rparr>)) ob"
  "resolve_filtered_products ok d (Some (f\<lparr>pf_price_gte := Some 0\<rparr>)) ob =
     resolve_filtered_products ok d (Some (f\<lparr>pf_price_gte := None\<rparr>)) ob"
  "resolve_filtered_products ok d (Some (f\<lparr>pf_price_lte := Some 0\<rparr>)) ob =
     resolve_filtered_products ok d (Some (f\<lparr>pf_price_lte := None\<rparr>)) ob"
  "resolve_filtered_products ok d (Some (f\<lparr>pf_stock_gte := Some 0\<rparr>)) ob =
     resolve_filtered_products ok d (Some (f\<lparr>pf_stock_gte := None\<rparr>)) ob"
  "resolve_filtered_products ok d (Some (f\<lparr>pf_stock_lte := Some 0\<rparr>)) ob =
     resolve_filtered_products ok d (Some (f\<lparr>pf_stock_lte := None\<rparr>)) ob"
  "resolve_filtered_products ok d (Some (f\<lparr>pf_low_stock := Some False\<rparr>)) ob =
     resolve_filtered_products ok d (Some (f\<lparr>pf_low_stock := None\<rparr>)) ob"
  by (simp_all add: resolve_filtered_products_def truthy_def truthy_num_def truthy_bool_def when_set_def)

lemma customers_falsy:
  "resolve_customers ok d (Some (g\<lparr>cf_name_icontains := Some []\<rparr>)) ob =
     resolve_customers ok d (Some (g\<lparr>cf_name_icontains := None\<rparr>)) ob"
  "resolve_customers ok d (Some (g\<lparr>cf_email_icontains := Some []\<rparr>)) ob =
     resolve_customers ok d (Some (g\<lparr>cf_email_icontains := None\<rparr>)) ob"
  "resolve_customers ok d (Some (g\<lparr>cf_phone_pattern := Some []\<rparr>)) ob =
     resolve_customers ok d (Some (g\<lparr>cf_phone_pattern := None\<rparr>)) ob"
  "resolve_filtered_customers ok d (Some (g\<lparr>cf_name_icontains := Some []\<rparr>)) ob =
     resolve_filtered_customers ok d (Some (g\<lparr>cf_name_icontains := None\<rparr>)) ob"
  "resolve_filtered_customers ok d (Some (g\<lparr>cf_email_icontains := Some []\<rparr>)) ob =
     resolve_filtered_customers ok d (Some (g\<lparr>cf_email_icontains := None\<rparr>)) ob"
  "resolve_filtered_customers ok d (Some (g\<lparr>cf_phone_pattern := Some []\<rparr>)) ob =
     resolve_filtered_customers ok d (Some (g\<lparr>cf_phone_pattern := None\<rparr>)) ob"
  by (simp_all add: resolve_customers_def resolve_filtered_customers_def truthy_def when_set_def)

lemma orders_falsy:
  "resolve_orders ok d (Some (h\<lparr>of_total_amount_gte := Some 0\<rparr>)) ob =
     resolve_orders ok d (Some (h\<lparr>of_total_amount_gte := None\<rparr>)) ob"
  "resolve_orders ok d (Some (h\<lparr>of_total_amount_lte := Some 0\<rparr>)) ob =
     resolve_orders ok d (Some (h\<lparr>of_total_amount_lte := None\<rparr>)) ob"
  "resolve_orders ok d (Some (h\<lparr>of_customer_name := Some []\<rparr>)) ob =
     resolve_orders ok d (Some (h\<lparr>of_customer_name := None\<rparr>)) ob"
  "resolve_orders ok d (Some (h\<lparr>of_product_name := Some []\<rparr>)) ob =
     resolve_orders ok d (Some (h\<lparr>of_product_name := None\<rparr>)) ob"
  "resolve_orders ok d (Some (h\<lparr>of_product_id := Some 0\<rparr>)) ob =
     resolve_orders ok d (Some (h\<lparr>of_product_id := None\<rparr>)) ob"
  "resolve_filtered_orders ok d (Some (h\<lparr>of_total_amount_gte := Some 0\<rparr>)) ob =
     resolve_filtered_orders ok d (Some (h\<lparr>of_total_amount_gte := None\<rparr>)) ob"
  "resolve_filtered_orders ok d (Some (h\<lparr>of_total_amount_lte := Some 0\<rparr>)) ob =
     resolve_filtered_orders ok d (Some (h\<lparr>of_total_amount_lte := None\<rparr>)) ob"
  "resolve_filtered_orders ok d (Some (h\<lparr>of_customer_name := Some []\<rparr>)) ob =
     resolve_filtered_orders ok d (Some (h\<lparr>of_customer_name := None\<rparr>)) ob"
  by (simp_all add: resolve_orders_def resolve_filtered_orders_def order_amount_date_customer_def
        truthy_def truthy_num_def when_set_def Let_def cong: option.case_cong)

lemma zero_stock_bound_unfiltered:
  "resolve_products ok d
     (Some \<lparr>pf_name_icontains = None, pf_price_gte = None, pf_price_lte = None,
            pf_stock_gte = None, pf_stock_lte = Some 0, pf_low_stock = None\<rparr>) None =
   Inr (objects_all (product_table d))"
  by (simp add: resolve_products_def order_by_opt_None truthy_def truthy_num_def truthy_bool_def
        when_set_def)

text \<open>
  C10: in the custom resolvers a criterion whose value is falsy (zero, \<open>False\<close>, the
  empty string) is treated exactly as an absent one, for products, customers and
  orders; a maximum stock of zero alone returns all products.
\<close>

theorem falsy_criterion_is_absent:
  "resolve_products ok d (Some (f\<lparr>pf_price_gte := Some 0\<rparr>)) ob =
     resolve_products ok d (Some (f\<lparr>pf_price_gte := None\<rparr>)) ob \<and>
   resolve_products ok d (Some (f\<lparr>pf_price_lte := Some 0\<rparr>)) ob =
     resolve_products ok d (Some (f\<lparr>pf_price_lte := None\<rparr>)) ob \<and>
   resolve_products ok d (Some (f\<lparr>pf_stock_gte := Some 0\<rparr>)) ob =
     resolve_products ok d (Some (f\<lparr>pf_stock_gte := None\<rparr>)) ob \<and>
   resolve_products ok d (Some (f\<lparr>pf_stock_lte := Some 0\<rparr>)) ob =
     resolve_products ok d (Some (f\<lparr>pf_stock_lte := None\<rparr>)) ob \<and>
   resolve_products ok d (Some (f\<lparr>pf_low_stock := Some False\<rparr>)) ob =
     resolve_products ok d (Some (f\<lparr>pf_low_stock := None\<rparr>)) ob \<and>
   resolve_products ok d (Some (f\<lparr>pf_name_icontains := Some []\<rparr>)) ob =
     resolve_products ok d (Some (f\<lparr>pf_name_icontains := None\<rparr>)) ob \<and>
   resolve_filtered_products ok d (Some (f\<lparr>pf_price_gte := Some 0\<rparr>)) ob =
     resolve_filtered_products ok d (Some (f\<lparr>pf_price_gte := None\<rparr>)) ob \<and>
   resolve_filtered_products ok d (Some (f\<lparr>pf_price_lte := Some 0\<rparr>)) ob =
     resolve_filtered_products ok d (Some (f\<lparr>pf_price_lte := None\<rparr>)) ob \<and>
   resolve_filtered_products ok d (Some (f\<lparr>pf_stock_gte := Some 0\<rparr>)) ob =
     resolve_filtered_products ok d (Some (f\<lparr>pf_stock_gte := None\<rparr>)) ob \<and>
   resolve_filtered_products ok d (Some (f\<lparr>pf_stock_lte := Some 0\<rparr>)) ob =
     resolve_filtered_products ok d (Some (f\<lparr>pf_stock_lte := None\<rparr>)) ob \<and>
   resolve_filtered_products ok d (Some (f\<lparr>pf_low_stock := Some False\<rparr>)) ob =
     resolve_filtered_products ok d (Some (f\<lparr>pf_low_stock := None\<rparr>)) ob \<and>
   resolve_filtered_products ok d (Some (f\<lparr>pf_name_icontains := Some []\<rparr>)) ob =
     resolve_filtered_products ok d (Some (f\<lparr>pf_name_icontains := None\<rparr>)) ob \<and>
   resolve_customers ok d (Some (g\<lparr>cf_name_icontains := Some []\<rparr>)) ob =
     resolve_customers ok d (Some (g\<lparr>cf_name_icontains := None\<rparr>)) ob \<and>
   resolve_customers ok d (Some (g\<lparr>cf_email_icontains := Some []\<rparr>)) ob =
     resolve_customers ok d (Some (g\<lparr>cf_email_icontains := None\<rparr>)) ob \<and>
   resolve_customers ok d (Some (g\<lparr>cf_phone_pattern := Some []\<rparr>)) ob =
     resolve_customers ok d (Some (g\<lparr>cf_phone_pattern := None\<rparr>)) ob \<and>
   resolve_filtered_customers ok d (Some (g\<lparr>cf_name_icontains := Some []\<rparr>)) ob =
     resolve_filtered_customers ok d (Some (g\<lparr>cf_name_icontains := None\<rparr>)) ob \<and>
   resolve_filtered_customers ok d (Some (g\<lparr>cf_email_icontains := Some []\<rparr>)) ob =
     resolve_filtered_customers ok d (Some (g\<lparr>cf_email_icontains := None\<rparr>)) ob \<and>
   resolve_filtered_customers ok d (Some (g\<lparr>cf_phone_pattern := Some []\<rparr>)) ob =
     resolve_filtered_customers ok d (Some (g\<lparr>cf_phone_pattern := None\<rparr>)) ob \<and>
   resolve_orders ok d (Some (h\<lparr>of_total_amount_gte := Some 0\<rparr>)) ob =
     resolve_orders ok d (Some (h\<lparr>of_total_amount_gte := None\<rparr>)) ob \<and>
   resolve_orders ok d (Some (h\<lparr>of_total_amount_lte := Some 0\<rparr>)) ob =
     resolve_orders ok d (Some (h\<lparr>of_total_amount_lte := None\<rparr>)) ob \<and>
   resolve_orders ok d (Some (h\<lparr>of_customer_name := Some []\<rparr>)) ob =
     resolve_orders ok d (Some (h\<lparr>of_customer_name := None\<rparr>)) ob \<and>
   resolve_orders ok d (Some (h\<lparr>of_product_name := Some []\<rparr>)) ob =
     resolve_orders ok d (Some (h\<lparr>of_product_name := None\<rparr>)) ob \<and>
   resolve_orders ok d (Some (h\<lparr>of_product_id := Some 0\<rparr>)) ob =
     resolve_orders ok d (Some (h\<lparr>of_product_id := None\<rparr>)) ob \<and>
   resolve_filtered_orders ok d (Some (h\<lparr>of_total_amount_gte := Some 0\<rparr>)) ob =
     resolve_filtered_orders ok d (Some (h\<lparr>of_total_amount_gte := None\<rparr>)) ob \<and>
   resolve_filtered_orders ok d (Some (h\<lparr>of_total_amount_lte := Some 0\<rparr>)) ob =
     resolve_filtered_orders ok d (Some (h\<lparr>of_total_amount_lte := None\<rparr>)) ob \<and>
   resolve_filtered_orders ok d (Some (h\<lparr>of_customer_name := Some []\<rparr>)) ob =
     resolve_filtered_orders ok d (Some (h\<lparr>of_customer_name := None\<rparr>)) ob \<and>
   resolve_products ok d
     (Some \<lparr>pf_name_icontains = None, pf_price_gte = None, pf_price_lte = None,
            pf_stock_gte = None, pf_stock_lte = Some 0, pf_low_stock = None\<rparr>) None =
     Inr (objects_all (product_table d))"
  by (intro conjI)
     (rule products_falsy filtered_products_falsy customers_falsy orders_falsy
        zero_stock_bound_unfiltered)+

text \<open>
  C10 on the seed data: a maximum price of zero with \<open>low_stock\<close> false returns the
  three products, none of which costs nothing.
\<close>

theorem falsy_criterion_is_absent_witness:
  "resolve_products any_ordering seed_db
     (Some (no_criteria\<lparr>pf_low_stock := Some False, pf_price_lte := Some 0\<rparr>)) None =
   Inr (objects_all (product_table seed_db)) \<and>
   filter (\<lambda>p. p_price p \<le> 0) (product_table seed_db) = []"
proof -
  have "resolve_products any_ordering seed_db
     (Some (no_criteria\<lparr>pf_low_stock := Some False, pf_price_lte := Some 0\<rparr>)) None =
    resolve_products any_ordering seed_db
     (Some (no_criteria\<lparr>pf_low_stock := Some False, pf_price_lte := None\<rparr>)) None"
    using falsy_criterion_is_absent[of any_ordering seed_db "no_criteria\<lparr>pf_low_stock := Some False\<rparr>" None]
    by simp
  also have "\<dots> = Inr (objects_all (product_table seed_db))"
    by (simp add: no_criteria_def resolve_products_def order_by_opt_None truthy_def truthy_num_def
          truthy_bool_def when_set_def)
  finally show ?thesis by (simp add: seed_db_def seed_products_def)
qed

text \<open>
  C6 at the criterion \<open>stock_lte = 0\<close>: no seed product has a stock of zero or less, and
  \<open>resolve_products\<close> returns all three, since \<open>if filter.get('stock_lte')\<close> takes the
  value zero for an absent criterion.
\<close>

theorem zero_stock_bound_ignored:
  "resolve_products any_ordering seed_db (Some (no_criteria\<lparr>pf_stock_lte := Some 0\<rparr>)) None =
     Inr (objects_all (product_table seed_db)) \<and>
   map p_stock (product_table seed_db) = [10, 50, 8]"
  by (simp add: no_criteria_def zero_stock_bound_unfiltered seed_db_def seed_products_def)


end
